theory Spec2Isabelle
  imports Main "HOL-Library.AList" "HOL-Library.Word"
begin

section \<open>Google Forms question request builder\<close>

text \<open>
  This theory embeds the helper \<open>_build_question_requests\<close> of
  \<open>gforms/forms_tools.py\<close>, which converts the simplified question dictionaries
  accepted by \<open>create_form\<close> into request objects of the Forms batch-update API.

  The helper receives \<open>List[Dict[str, Any]]\<close>: the values stored in a question
  dictionary are arbitrary JSON-like Python values, so they are modelled by a
  universal value type and every operation that Python would reject at run time
  (iterating a non-iterable, calling \<open>.get\<close> on a non-dictionary) is a branch
  returning an error.
\<close>

subsection \<open>Python values\<close>

text \<open>
  Dictionaries are association lists in insertion order with string keys, looked up
  with \<open>map_of\<close>. A float is carried as its IEEE-754 bit pattern; the builder only
  passes floats through or hands them to \<open>str\<close>.
\<close>

datatype pyval =
    PNone
  | PBool bool
  | PInt int
  | PFloat "64 word"
  | PStr string
  | PList "pyval list"
  | PDict "(string \<times> pyval) list"

type_synonym pydict = "(string \<times> pyval) list"

datatype pyerr = TypeError | AttributeError

text \<open>\<open>d.get(k, default)\<close> on a dictionary; \<open>d.get(k)\<close> is \<open>dict_get d k PNone\<close>.\<close>

definition dict_get :: "pydict \<Rightarrow> string \<Rightarrow> pyval \<Rightarrow> pyval" where
  "dict_get d k dflt = (case map_of d k of None \<Rightarrow> dflt | Some v \<Rightarrow> v)"

text \<open>
  \<open>v.get(k)\<close> on an arbitrary value: only a dictionary has the method, every other
  JSON-like value raises \<open>AttributeError\<close>.
\<close>

fun py_get :: "pyval \<Rightarrow> string \<Rightarrow> pyerr + pyval" where
  "py_get (PDict d) k = Inr (dict_get d k PNone)"
| "py_get _ k = Inl AttributeError"

text \<open>
  \<open>for opt in v\<close>: a list yields its elements, a string its characters (as
  one-character strings), a dictionary its keys; the other values are not iterable
  and raise \<open>TypeError\<close>.
\<close>

fun py_iter :: "pyval \<Rightarrow> pyerr + pyval list" where
  "py_iter (PList xs) = Inr xs"
| "py_iter (PStr s) = Inr (map (\<lambda>c. PStr [c]) s)"
| "py_iter (PDict d) = Inr (map (\<lambda>kv. PStr (fst kv)) d)"
| "py_iter _ = Inl TypeError"

text \<open>Decimal rendering of integers, as \<open>str\<close> does it.\<close>

definition digit_char :: "nat \<Rightarrow> char" where
  "digit_char d = ''0123456789'' ! d"

fun str_nat :: "nat \<Rightarrow> string" where
  "str_nat n = (if n < 10 then [digit_char n] else str_nat (n div 10) @ [digit_char (n mod 10)])"

declare str_nat.simps [simp del]

definition str_int :: "int \<Rightarrow> string" where
  "str_int i = (if i < 0 then CHR ''-'' # str_nat (nat (- i)) else str_nat (nat i))"

text \<open>The characters a rendered natural number is made of.\<close>

definition digit_chars :: "char set" where
  "digit_chars = set ''0123456789''"

text \<open>
  \<open>str(v)\<close>. Python's rendering of floats, lists and dictionaries is not part of
  the repository and is taken as the parameter \<open>str_other\<close>; \<open>str\<close> never raises on
  these values.
\<close>

fun py_str :: "(pyval \<Rightarrow> string) \<Rightarrow> pyval \<Rightarrow> string" where
  "py_str str_other PNone = ''None''"
| "py_str str_other (PBool b) = (if b then ''True'' else ''False'')"
| "py_str str_other (PInt i) = str_int i"
| "py_str str_other (PStr s) = s"
| "py_str str_other v = str_other v"

text \<open>Following a path of keys through nested dictionaries of a built request.\<close>

fun py_path :: "pyval \<Rightarrow> string list \<Rightarrow> pyval option" where
  "py_path v [] = Some v"
| "py_path (PDict d) (k # ks) = (case map_of d k of None \<Rightarrow> None | Some v \<Rightarrow> py_path v ks)"
| "py_path _ (k # ks) = None"

subsection \<open>The builder\<close>

text \<open>
  The \<open>if\<close>/\<open>elif\<close> chain on \<open>question_type\<close>: the key and value stored into
  \<open>item["questionItem"]["question"]\<close>, \<open>None\<close> for the final \<open>else\<close> branch
  (warning and \<open>continue\<close>), or the exception raised while building the value.
  The message written by \<open>logger.warning\<close> in the \<open>else\<close> branch is not part of
  the returned value and is left out.
\<close>

definition question_payload :: "(pyval \<Rightarrow> string) \<Rightarrow> pydict \<Rightarrow> pyerr + (string \<times> pyval) option" where
  "question_payload str_other q =
    (let question_type = dict_get q ''type'' PNone in
     if question_type = PStr ''TEXT_QUESTION'' then
       Inr (Some (''textQuestion'', PDict []))
     else if question_type = PStr ''MULTIPLE_CHOICE_QUESTION'' then
       (case py_iter (dict_get q ''options'' (PList [])) of
          Inl e \<Rightarrow> Inl e
        | Inr options \<Rightarrow>
            Inr (Some (''choiceQuestion'',
              PDict [(''type'', PStr ''RADIO''),
                     (''options'', PList (map (\<lambda>opt. PDict [(''value'', opt)]) options))])))
     else if question_type = PStr ''SCALE_QUESTION'' then
       (let scale_min = dict_get q ''scale_min'' PNone;
            scale_max = dict_get q ''scale_max'' PNone;
            scale_labels = dict_get q ''scale_labels'' (PDict [])
        in case py_get scale_labels (py_str str_other scale_min) of
             Inl e \<Rightarrow> Inl e
           | Inr lowLabel \<Rightarrow>
               (case py_get scale_labels (py_str str_other scale_max) of
                  Inl e \<Rightarrow> Inl e
                | Inr highLabel \<Rightarrow>
                    Inr (Some (''scaleQuestion'',
                      PDict [(''low'', scale_min), (''high'', scale_max),
                             (''lowLabel'', lowLabel), (''highLabel'', highLabel)]))))
     else if question_type = PStr ''CHECKBOX_QUESTION'' then
       (case py_iter (dict_get q ''options'' (PList [])) of
          Inl e \<Rightarrow> Inl e
        | Inr options \<Rightarrow>
            Inr (Some (''choiceQuestion'',
              PDict [(''type'', PStr ''CHECKBOX''),
                     (''options'', PList (map (\<lambda>opt. PDict [(''value'', opt)]) options))])))
     else if question_type = PStr ''DATE_QUESTION'' then
       (let include_time = dict_get q ''include_time'' (PBool False);
            include_year = dict_get q ''include_year'' (PBool True)
        in Inr (Some (''dateQuestion'',
             PDict [(''includeTime'', include_time), (''includeYear'', include_year)])))
     else if question_type = PStr ''TIME_QUESTION'' then
       Inr (Some (''timeQuestion'', PDict []))
     else Inr None)"

text \<open>
  One iteration of the loop for the question \<open>q\<close> at index \<open>i\<close>: the request
  appended to \<open>requests\<close>, \<open>None\<close> when the question is skipped, or the exception.
  The assignment into the nested \<open>question\<close> dictionary is \<open>AList.update\<close>.
\<close>

definition build_request :: "(pyval \<Rightarrow> string) \<Rightarrow> nat \<Rightarrow> pydict \<Rightarrow> pyerr + pyval option" where
  "build_request str_other i q =
    (let question_title = dict_get q ''title'' PNone;
         question_description = dict_get q ''description'' PNone;
         question_required = dict_get q ''required'' (PBool False);
         question = [(''required'', question_required)]
     in case question_payload str_other q of
          Inl e \<Rightarrow> Inl e
        | Inr None \<Rightarrow> Inr None
        | Inr (Some (k, v)) \<Rightarrow>
            Inr (Some (PDict
              [(''createItem'', PDict
                 [(''item'', PDict
                    [(''title'', question_title),
                     (''description'', question_description),
                     (''questionItem'', PDict [(''question'', PDict (AList.update k v question))])]),
                  (''location'', PDict [(''index'', PInt (int i))])])])))"

text \<open>The loop over \<open>enumerate(questions)\<close> with the accumulator \<open>requests\<close>.\<close>

fun build_loop :: "(pyval \<Rightarrow> string) \<Rightarrow> nat \<Rightarrow> pydict list \<Rightarrow> pyval list \<Rightarrow> pyerr + pyval list" where
  "build_loop str_other i [] requests = Inr requests"
| "build_loop str_other i (q # qs) requests =
     (case build_request str_other i q of
        Inl e \<Rightarrow> Inl e
      | Inr None \<Rightarrow> build_loop str_other (Suc i) qs requests
      | Inr (Some r) \<Rightarrow> build_loop str_other (Suc i) qs (requests @ [r]))"

definition build_question_requests :: "(pyval \<Rightarrow> string) \<Rightarrow> pydict list \<Rightarrow> pyerr + pyval list" where
  "build_question_requests str_other questions = build_loop str_other 0 questions []"

subsection \<open>Vocabulary of the specification\<close>

text \<open>
  The six type tags of the \<open>if\<close>/\<open>elif\<close> chain, the shape conditions under which
  the kind-specific fields can be processed, and the location index carried by a
  built request.
\<close>

definition supported_types :: "string list" where
  "supported_types = [''TEXT_QUESTION'', ''MULTIPLE_CHOICE_QUESTION'', ''SCALE_QUESTION'',
     ''CHECKBOX_QUESTION'', ''DATE_QUESTION'', ''TIME_QUESTION'']"

definition has_type :: "pydict \<Rightarrow> string \<Rightarrow> bool" where
  "has_type q t = (dict_get q ''type'' PNone = PStr t)"

definition recognized :: "pydict \<Rightarrow> bool" where
  "recognized q = list_ex (has_type q) supported_types"

fun is_dict :: "pyval \<Rightarrow> bool" where
  "is_dict (PDict d) = True"
| "is_dict _ = False"

fun iterable :: "pyval \<Rightarrow> bool" where
  "iterable (PList xs) = True"
| "iterable (PStr s) = True"
| "iterable (PDict d) = True"
| "iterable _ = False"

definition fields_ok :: "pydict \<Rightarrow> bool" where
  "fields_ok q =
     ((has_type q ''MULTIPLE_CHOICE_QUESTION'' \<or> has_type q ''CHECKBOX_QUESTION''
         \<longrightarrow> iterable (dict_get q ''options'' (PList []))) \<and>
      (has_type q ''SCALE_QUESTION'' \<longrightarrow> is_dict (dict_get q ''scale_labels'' (PDict []))))"

definition location_index :: "pyval \<Rightarrow> pyval option" where
  "location_index r = py_path r [''createItem'', ''location'', ''index'']"

text \<open>Fields of the item and of the question nested in a built request.\<close>

definition item_field :: "pyval \<Rightarrow> string \<Rightarrow> pyval option" where
  "item_field r k = py_path r [''createItem'', ''item'', k]"

definition question_field :: "pyval \<Rightarrow> string \<Rightarrow> pyval option" where
  "question_field r k = py_path r [''createItem'', ''item'', ''questionItem'', ''question'', k]"

definition scale_field :: "pyval \<Rightarrow> string \<Rightarrow> pyval option" where
  "scale_field r k =
     py_path r [''createItem'', ''item'', ''questionItem'', ''question'', ''scaleQuestion'', k]"

text \<open>
  The kind-specific fields read from a question are of a shape the builder can
  process wherever they are present, whatever the type of the question.
\<close>

definition present_fields_ok :: "pydict \<Rightarrow> bool" where
  "present_fields_ok q =
     ((case map_of q ''options'' of None \<Rightarrow> True | Some v \<Rightarrow> iterable v) \<and>
      (case map_of q ''scale_labels'' of None \<Rightarrow> True | Some v \<Rightarrow> is_dict v))"

definition requests_at :: "pyval list \<Rightarrow> nat \<Rightarrow> pyval list" where
  "requests_at rs j = filter (\<lambda>r. location_index r = Some (PInt (int j))) rs"

text \<open>
  The requests contributed by one question and by a whole list, used to describe
  the result of the loop.
\<close>

definition out :: "(pyval \<Rightarrow> string) \<Rightarrow> nat \<Rightarrow> pydict \<Rightarrow> pyval list" where
  "out s j q = (case build_request s j q of Inr (Some r) \<Rightarrow> [r] | _ \<Rightarrow> [])"

fun collected :: "(pyval \<Rightarrow> string) \<Rightarrow> nat \<Rightarrow> pydict list \<Rightarrow> pyval list" where
  "collected s i [] = []"
| "collected s i (q # qs) = out s i q @ collected s (Suc i) qs"

text \<open>
  Sample inputs. None of them hands a float, list or dictionary to \<open>str\<close>, so the
  rendering chosen for those values plays no part in the results.
\<close>

definition str_other_sample :: "pyval \<Rightarrow> string" where
  "str_other_sample v = ''?''"

definition text_question :: pydict where
  "text_question = [(''type'', PStr ''TEXT_QUESTION''), (''title'', PStr ''Name'')]"

definition unknown_question :: pydict where
  "unknown_question = [(''type'', PStr ''UNKNOWN_KIND''), (''title'', PStr ''Skipped'')]"

definition checkbox_question :: pydict where
  "checkbox_question =
     [(''type'', PStr ''CHECKBOX_QUESTION''), (''title'', PStr ''Pick''),
      (''options'', PList [PStr ''a'', PStr ''b''])]"

definition multiple_choice_question :: pydict where
  "multiple_choice_question =
     [(''type'', PStr ''MULTIPLE_CHOICE_QUESTION''), (''title'', PStr ''Colour''),
      (''options'', PList [PStr ''Red'', PStr ''Green'', PStr ''Blue''])]"

definition scale_question :: pydict where
  "scale_question =
     [(''type'', PStr ''SCALE_QUESTION''), (''title'', PStr ''Rating''),
      (''scale_min'', PInt 1), (''scale_max'', PInt 5),
      (''scale_labels'', PDict [(''1'', PStr ''Low''), (''5'', PStr ''High'')])]"

definition unlabelled_scale_question :: pydict where
  "unlabelled_scale_question =
     [(''type'', PStr ''SCALE_QUESTION''), (''title'', PStr ''Rating''),
      (''scale_min'', PInt 1), (''scale_max'', PInt 5)]"

definition date_question :: pydict where
  "date_question = [(''type'', PStr ''DATE_QUESTION''), (''title'', PStr ''Birthday'')]"

definition null_labels_question :: pydict where
  "null_labels_question =
     [(''type'', PStr ''SCALE_QUESTION''), (''title'', PStr ''Rating''),
      (''scale_min'', PInt 1), (''scale_max'', PInt 5), (''scale_labels'', PNone)]"

definition bare_choice_question :: pydict where
  "bare_choice_question = [(''type'', PStr ''MULTIPLE_CHOICE_QUESTION'')]"

definition scale_without_min :: pydict where
  "scale_without_min =
     [(''type'', PStr ''SCALE_QUESTION''), (''title'', PStr ''Rating''), (''scale_max'', PInt 5),
      (''scale_labels'', PDict [(''1'', PStr ''Low''), (''5'', PStr ''High'')])]"

definition scale_without_max :: pydict where
  "scale_without_max =
     [(''type'', PStr ''SCALE_QUESTION''), (''title'', PStr ''Rating''), (''scale_min'', PInt 1),
      (''scale_labels'', PDict [(''1'', PStr ''Low''), (''5'', PStr ''High'')])]"

definition described_question :: pydict where
  "described_question =
     [(''type'', PStr ''TEXT_QUESTION''), (''title'', PStr ''Name''),
      (''description'', PStr ''Your full name''), (''required'', PBool True)]"

definition mixed_questions :: "pydict list" where
  "mixed_questions = [text_question, unknown_question, checkbox_question]"

section \<open>Properties of the payload and of one iteration\<close>

lemma py_get_dict: "is_dict v \<Longrightarrow> \<exists>x. py_get v k = Inr x"
  by (cases v) auto

lemma py_get_not_dict: "\<not> is_dict v \<Longrightarrow> py_get v k = Inl AttributeError"
  by (cases v) auto

lemma py_iter_iterable: "iterable v \<Longrightarrow> \<exists>xs. py_iter v = Inr xs"
  by (cases v) auto

lemma py_iter_not_iterable: "\<not> iterable v \<Longrightarrow> py_iter v = Inl TypeError"
  by (cases v) auto

lemma payload_None: "\<not> recognized q \<Longrightarrow> question_payload s q = Inr None"
  by (simp add: recognized_def supported_types_def question_payload_def has_type_def)

lemma payload_Some:
  assumes "recognized q" "fields_ok q"
  shows "\<exists>k v. question_payload s q = Inr (Some (k, v)) \<and> k \<noteq> ''required''"
proof -
  consider "has_type q ''TEXT_QUESTION''" | "has_type q ''MULTIPLE_CHOICE_QUESTION''"
    | "has_type q ''SCALE_QUESTION''" | "has_type q ''CHECKBOX_QUESTION''"
    | "has_type q ''DATE_QUESTION''" | "has_type q ''TIME_QUESTION''"
    using assms(1) by (auto simp: recognized_def supported_types_def)
  then show ?thesis
  proof cases
    case 1 then show ?thesis by (simp add: question_payload_def has_type_def)
  next
    case 2
    with assms(2) obtain xs where "py_iter (dict_get q ''options'' (PList [])) = Inr xs"
      using py_iter_iterable by (auto simp: fields_ok_def)
    with 2 show ?thesis by (simp add: question_payload_def has_type_def)
  next
    case 3
    with assms(2) have d: "is_dict (dict_get q ''scale_labels'' (PDict []))"
      by (simp add: fields_ok_def)
    obtain lo where lo: "py_get (dict_get q ''scale_labels'' (PDict [])) (py_str s (dict_get q ''scale_min'' PNone)) = Inr lo"
      using py_get_dict[OF d] by blast
    obtain hi where hi: "py_get (dict_get q ''scale_labels'' (PDict [])) (py_str s (dict_get q ''scale_max'' PNone)) = Inr hi"
      using py_get_dict[OF d] by blast
    from 3 lo hi show ?thesis by (simp add: question_payload_def has_type_def)
  next
    case 4
    with assms(2) obtain xs where "py_iter (dict_get q ''options'' (PList [])) = Inr xs"
      using py_iter_iterable by (auto simp: fields_ok_def)
    with 4 show ?thesis by (simp add: question_payload_def has_type_def)
  next
    case 5 then show ?thesis by (simp add: question_payload_def has_type_def)
  next
    case 6 then show ?thesis by (simp add: question_payload_def has_type_def)
  qed
qed

lemma payload_raises:
  assumes "\<not> fields_ok q"
  shows "\<exists>e. question_payload s q = Inl e"
proof -
  consider (mc) "has_type q ''MULTIPLE_CHOICE_QUESTION''" "\<not> iterable (dict_get q ''options'' (PList []))"
    | (cb) "has_type q ''CHECKBOX_QUESTION''" "\<not> iterable (dict_get q ''options'' (PList []))"
    | (sc) "has_type q ''SCALE_QUESTION''" "\<not> is_dict (dict_get q ''scale_labels'' (PDict []))"
    using assms by (auto simp: fields_ok_def)
  then show ?thesis
  proof cases
    case mc then show ?thesis
      by (simp add: question_payload_def has_type_def py_iter_not_iterable)
  next
    case cb then show ?thesis
      by (simp add: question_payload_def has_type_def py_iter_not_iterable)
  next
    case sc then show ?thesis
      by (simp add: question_payload_def has_type_def py_get_not_dict)
  qed
qed

lemma request_None: "\<not> recognized q \<Longrightarrow> build_request s i q = Inr None"
  by (simp add: build_request_def payload_None)

lemma request_of_payload:
  "question_payload s q = Inr (Some (k, v)) \<Longrightarrow>
   build_request s i q = Inr (Some (PDict
              [(''createItem'', PDict
                 [(''item'', PDict
                    [(''title'', dict_get q ''title'' PNone),
                     (''description'', dict_get q ''description'' PNone),
                     (''questionItem'', PDict [(''question'', PDict (AList.update k v [(''required'', dict_get q ''required'' (PBool False))]))])]),
                  (''location'', PDict [(''index'', PInt (int i))])])]))"
  by (simp add: build_request_def)

lemma request_Some:
  assumes "recognized q" "fields_ok q"
  shows "\<exists>r. build_request s i q = Inr (Some r)"
proof -
  obtain k v where "question_payload s q = Inr (Some (k, v))"
    using payload_Some[OF assms] by blast
  then show ?thesis by (simp only: request_of_payload) blast
qed

lemma request_raises:
  assumes "\<not> fields_ok q"
  shows "\<exists>e. build_request s i q = Inl e"
proof -
  obtain e where "question_payload s q = Inl e"
    using payload_raises[OF assms] by blast
  then show ?thesis by (simp add: build_request_def)
qed

lemma request_shape:
  assumes "build_request s i q = Inr (Some r)"
  shows "\<exists>k v. question_payload s q = Inr (Some (k, v)) \<and>
     r = PDict
              [(''createItem'', PDict
                 [(''item'', PDict
                    [(''title'', dict_get q ''title'' PNone),
                     (''description'', dict_get q ''description'' PNone),
                     (''questionItem'', PDict [(''question'', PDict (AList.update k v [(''required'', dict_get q ''required'' (PBool False))]))])]),
                  (''location'', PDict [(''index'', PInt (int i))])])]"
proof (cases "question_payload s q")
  case (Inl e)
  then have "build_request s i q = Inl e" by (simp add: build_request_def)
  with assms show ?thesis by simp
next
  case (Inr p)
  show ?thesis
  proof (cases p)
    case None
    with Inr have "build_request s i q = Inr None" by (simp add: build_request_def)
    with assms show ?thesis by simp
  next
    case (Some kv)
    obtain k v where kv: "kv = (k, v)" by (cases kv)
    have pl: "question_payload s q = Inr (Some (k, v))" using Inr Some kv by simp
    from assms show ?thesis unfolding request_of_payload[OF pl] using pl by blast
  qed
qed

lemma request_index:
  assumes "build_request s i q = Inr (Some r)"
  shows "location_index r = Some (PInt (int i))"
proof -
  obtain k v where "r = PDict
              [(''createItem'', PDict
                 [(''item'', PDict
                    [(''title'', dict_get q ''title'' PNone),
                     (''description'', dict_get q ''description'' PNone),
                     (''questionItem'', PDict [(''question'', PDict (AList.update k v [(''required'', dict_get q ''required'' (PBool False))]))])]),
                  (''location'', PDict [(''index'', PInt (int i))])])]"
    using request_shape[OF assms] by blast
  then show ?thesis by (simp add: location_index_def)
qed

lemma out_Some: "build_request s j q = Inr (Some r) \<Longrightarrow> out s j q = [r]"
  by (simp add: out_def)

lemma out_None: "build_request s j q = Inr None \<Longrightarrow> out s j q = []"
  by (simp add: out_def)

lemma out_Inl: "build_request s j q = Inl e \<Longrightarrow> out s j q = []"
  by (simp add: out_def)

lemma out_cases:
  obtains (some) r where "build_request s j q = Inr (Some r)" "out s j q = [r]"
  | (none) "out s j q = []"
proof (cases "build_request s j q")
  case (Inl e)
  then show ?thesis using none out_Inl by blast
next
  case (Inr b)
  then show ?thesis using none some out_None out_Some by (cases b) blast+
qed

lemma out_at: "requests_at (out s j q) k = (if j = k then out s j q else [])"
proof (cases rule: out_cases[of s j q])
  case (some r)
  have "location_index r = Some (PInt (int j))" by (rule request_index[OF some(1)])
  then have "requests_at [r] k = (if j = k then [r] else [])"
    by (simp add: requests_at_def)
  then show ?thesis by (simp only: some(2))
next
  case none
  have "requests_at [] k = (if j = k then [] else [])"
    by (simp add: requests_at_def)
  then show ?thesis by (simp only: none)
qed

lemma requests_at_append: "requests_at (xs @ ys) k = requests_at xs k @ requests_at ys k"
  by (simp add: requests_at_def)

section \<open>Properties of the loop\<close>

lemma collected_at:
  "requests_at (collected s i qs) k = (if i \<le> k \<and> k < i + length qs then out s k (qs ! (k - i)) else [])"
proof (induction qs arbitrary: i)
  case Nil
  have "\<not> (i \<le> k \<and> k < i + length ([]::pydict list))" by simp
  then show ?case by (auto simp add: requests_at_def)
next
  case (Cons q qs)
  have split: "requests_at (collected s i (q # qs)) k
      = requests_at (out s i q) k @ requests_at (collected s (Suc i) qs) k"
    by (simp add: requests_at_append)
  note IH = Cons.IH[of "Suc i"]
  consider (eq) "k = i" | (lt) "k < i" | (gt) "i < k" by linarith
  then show ?case
  proof cases
    case eq
    have "requests_at (collected s (Suc i) qs) k = []"
      unfolding IH using eq by simp
    moreover have "requests_at (out s i q) k = out s i q"
      using eq by (simp add: out_at)
    ultimately show ?thesis using eq by (simp add: requests_at_append)
  next
    case lt
    have "requests_at (collected s (Suc i) qs) k = []"
      unfolding IH using lt by simp
    moreover have "requests_at (out s i q) k = []"
      using lt by (simp add: out_at)
    ultimately show ?thesis using lt by (simp add: requests_at_append)
  next
    case gt
    then obtain d where d: "k = Suc i + d" by (metis less_iff_Suc_add add_Suc)
    have "requests_at (out s i q) k = []"
      using gt by (simp add: out_at)
    moreover have "requests_at (collected s (Suc i) qs) k
        = (if d < length qs then out s k (qs ! d) else [])"
      unfolding IH using d by simp
    moreover have "(q # qs) ! (k - i) = qs ! d" using d by simp
    moreover have "(i \<le> k \<and> k < i + length (q # qs)) = (d < length qs)" using d by auto
    ultimately show ?thesis by (simp only: split append_Nil)
  qed
qed

lemma loop_ok:
  "list_all fields_ok qs \<Longrightarrow> build_loop s i qs acc = Inr (acc @ collected s i qs)"
proof (induction qs arbitrary: i acc)
  case Nil
  then show ?case by simp
next
  case (Cons q qs)
  then have ok: "fields_ok q" and rest: "list_all fields_ok qs" by simp_all
  show ?case
  proof (cases "recognized q")
    case True
    then obtain r where r: "build_request s i q = Inr (Some r)"
      using request_Some[OF True ok] by blast
    then show ?thesis using Cons.IH[OF rest] by (simp add: out_def)
  next
    case False
    then show ?thesis using Cons.IH[OF rest] by (simp add: out_def request_None)
  qed
qed

lemma loop_raises:
  "\<not> list_all fields_ok qs \<Longrightarrow> \<exists>e. build_loop s i qs acc = Inl e"
proof (induction qs arbitrary: i acc)
  case Nil
  then show ?case by simp
next
  case (Cons q qs)
  show ?case
  proof (cases "fields_ok q")
    case True
    with Cons.prems have "\<not> list_all fields_ok qs" by simp
    then show ?thesis using Cons.IH by (auto split: sum.splits option.splits)
  next
    case False
    then show ?thesis using request_raises[of q s i] by auto
  qed
qed

lemma out_length: "fields_ok q \<Longrightarrow> length (out s j q) = (if recognized q then 1 else 0)"
  using request_Some[of q s j] by (auto simp: out_def request_None)

lemma collected_length:
  "list_all fields_ok qs \<Longrightarrow> length (collected s i qs) = length (filter recognized qs)"
  by (induction qs arbitrary: i) (simp_all add: out_length)

lemma out_positions:
  "fields_ok q \<Longrightarrow> map location_index (out s j q) = (if recognized q then [Some (PInt (int j))] else [])"
  using request_Some[of q s j] by (auto simp: out_def request_None request_index)

lemma collected_positions:
  "list_all fields_ok qs \<Longrightarrow>
   map location_index (collected s i qs) =
   map (\<lambda>j. Some (PInt (int j))) (filter (\<lambda>j. recognized (qs ! (j - i))) [i..<i + length qs])"
proof (induction qs arbitrary: i)
  case Nil
  then show ?case by simp
next
  case (Cons q qs)
  then have ok: "fields_ok q" and rest: "list_all fields_ok qs" by simp_all
  let ?P = "\<lambda>j. recognized ((q # qs) ! (j - i))"
  let ?Q = "\<lambda>j. recognized (qs ! (j - Suc i))"
  define u where "u = [Suc i..<Suc i + length qs]"
  have shift: "filter ?P u = filter ?Q u"
    unfolding u_def by (rule filter_cong) (auto simp: nth_Cons' Suc_diff_le)
  have range_eq: "[i..<i + length (q # qs)] = i # u"
    unfolding u_def using upt_conv_Cons[of i "i + length (q # qs)"] by simp
  have IH: "map location_index (collected s (Suc i) qs) = map (\<lambda>j. Some (PInt (int j))) (filter ?Q u)"
    unfolding u_def by (rule Cons.IH[OF rest])
  have "map location_index (collected s i (q # qs))
        = map location_index (out s i q) @ map location_index (collected s (Suc i) qs)"
    by simp
  also have "\<dots> = map (\<lambda>j. Some (PInt (int j))) (filter ?P (i # u))"
    by (simp add: out_positions[OF ok] IH shift)
  finally show ?case unfolding range_eq .
qed

section \<open>The whole builder\<close>

lemma build_ok:
  "list_all fields_ok qs \<Longrightarrow> build_question_requests s qs = Inr (collected s 0 qs)"
  using loop_ok[of qs s 0 "[]"] by (simp add: build_question_requests_def)

lemma build_raises:
  "\<not> list_all fields_ok qs \<Longrightarrow> \<exists>e. build_question_requests s qs = Inl e"
  using loop_raises[of qs s 0 "[]"] by (simp add: build_question_requests_def)

lemma collected_at_0:
  "j < length qs \<Longrightarrow> requests_at (collected s 0 qs) j = out s j (qs ! j)"
  using collected_at[of s 0 qs j] by simp

lemma collected_at_beyond:
  "\<not> j < length qs \<Longrightarrow> requests_at (collected s 0 qs) j = []"
  using collected_at[of s 0 qs j] by simp

lemma produced_at:
  assumes "j < length qs" "build_request s j (qs ! j) = Inr (Some r)"
  shows "requests_at (collected s 0 qs) j = [r]"
  using collected_at_0[OF assms(1), of s] out_Some[OF assms(2)] by simp

lemma payload_path:
  assumes "question_payload s q = Inr (Some (k, v))"
  shows "\<exists>r. build_request s i q = Inr (Some r) \<and>
     py_path r [''createItem'', ''item'', ''questionItem'', ''question'', k] = Some v"
  unfolding request_of_payload[OF assms] by (simp add: update_conv')

lemma item_paths:
  assumes "question_payload s q = Inr (Some (k, v))" "k \<noteq> ''required''"
  shows "\<exists>r. build_request s i q = Inr (Some r) \<and>
     py_path r [''createItem'', ''item'', ''title''] = Some (dict_get q ''title'' PNone) \<and>
     py_path r [''createItem'', ''item'', ''description''] = Some (dict_get q ''description'' PNone) \<and>
     py_path r [''createItem'', ''item'', ''questionItem'', ''question'', ''required'']
       = Some (dict_get q ''required'' (PBool False)) \<and>
     location_index r = Some (PInt (int i))"
  unfolding request_of_payload[OF assms(1)] using assms(2)
  by (simp add: update_conv' location_index_def)

lemma payload_text:
  "has_type q ''TEXT_QUESTION'' \<Longrightarrow> question_payload s q = Inr (Some (''textQuestion'', PDict []))"
  by (simp add: question_payload_def has_type_def)

lemma payload_multiple_choice:
  assumes "has_type q ''MULTIPLE_CHOICE_QUESTION''"
    and "py_iter (dict_get q ''options'' (PList [])) = Inr xs"
  shows "question_payload s q = Inr (Some (''choiceQuestion'',
     PDict [(''type'', PStr ''RADIO''),
            (''options'', PList (map (\<lambda>opt. PDict [(''value'', opt)]) xs))]))"
  using assms by (simp add: question_payload_def has_type_def)

lemma payload_checkbox:
  assumes "has_type q ''CHECKBOX_QUESTION''"
    and "py_iter (dict_get q ''options'' (PList [])) = Inr xs"
  shows "question_payload s q = Inr (Some (''choiceQuestion'',
     PDict [(''type'', PStr ''CHECKBOX''),
            (''options'', PList (map (\<lambda>opt. PDict [(''value'', opt)]) xs))]))"
  using assms by (simp add: question_payload_def has_type_def)

lemma payload_scale:
  assumes "has_type q ''SCALE_QUESTION''"
    and "dict_get q ''scale_labels'' (PDict []) = PDict labels"
  shows "question_payload s q = Inr (Some (''scaleQuestion'',
     PDict [(''low'', dict_get q ''scale_min'' PNone),
            (''high'', dict_get q ''scale_max'' PNone),
            (''lowLabel'', dict_get labels (py_str s (dict_get q ''scale_min'' PNone)) PNone),
            (''highLabel'', dict_get labels (py_str s (dict_get q ''scale_max'' PNone)) PNone)]))"
  using assms by (simp add: question_payload_def has_type_def Let_def)

lemma payload_date:
  assumes "has_type q ''DATE_QUESTION''"
  shows "question_payload s q = Inr (Some (''dateQuestion'',
     PDict [(''includeTime'', dict_get q ''include_time'' (PBool False)),
            (''includeYear'', dict_get q ''include_year'' (PBool True))]))"
  using assms by (simp add: question_payload_def has_type_def)

lemma payload_time:
  "has_type q ''TIME_QUESTION'' \<Longrightarrow> question_payload s q = Inr (Some (''timeQuestion'', PDict []))"
  by (simp add: question_payload_def has_type_def)

lemma is_dict_conv: "is_dict v = (\<exists>d. v = PDict d)"
  by (cases v) auto

section \<open>Rendering of integers\<close>

lemma digit_char_in: "m < 10 \<Longrightarrow> digit_char m \<in> set ''0123456789''"
  unfolding digit_char_def by (rule nth_mem) simp

lemma str_nat_small: "n < 10 \<Longrightarrow> str_nat n = [digit_char n]"
  by (subst str_nat.simps) simp

lemma str_nat_large: "\<not> n < 10 \<Longrightarrow> str_nat n = str_nat (n div 10) @ [digit_char (n mod 10)]"
  by (subst str_nat.simps) simp

lemma digit_char_in': "m < 10 \<Longrightarrow> digit_char m \<in> digit_chars"
  unfolding digit_chars_def by (rule digit_char_in)

lemma str_nat_digits: "set (str_nat n) \<subseteq> digit_chars"
proof (induction n rule: str_nat.induct)
  case (1 n)
  show ?case
  proof (cases "n < 10")
    case True
    have "digit_char n \<in> digit_chars" by (rule digit_char_in'[OF True])
    then show ?thesis unfolding str_nat_small[OF True] by simp
  next
    case False
    have m: "n mod 10 < 10" by simp
    have a: "digit_char (n mod 10) \<in> digit_chars" by (rule digit_char_in'[OF m])
    have b: "set (str_nat (n div 10)) \<subseteq> digit_chars" by (rule 1[OF False])
    show ?thesis unfolding str_nat_large[OF False] using a b by simp
  qed
qed

lemma N_not_digit: "CHR ''N'' \<notin> digit_chars"
  by (simp add: digit_chars_def)

lemma str_int_not_None: "str_int i \<noteq> ''None''"
proof
  assume eq: "str_int i = ''None''"
  have "CHR ''N'' \<notin> set (str_nat (nat (- i)))" "CHR ''N'' \<notin> set (str_nat (nat i))"
    using str_nat_digits N_not_digit by blast+
  then have "CHR ''N'' \<notin> set (str_int i)"
    by (simp add: str_int_def)
  with eq show False by simp
qed

section \<open>Claims\<close>

lemmas sample_defs = text_question_def unknown_question_def checkbox_question_def

lemma sample_types:
  "has_type text_question ''TEXT_QUESTION''" "\<not> recognized unknown_question"
  "has_type checkbox_question ''CHECKBOX_QUESTION''"
  by (simp_all add: sample_defs recognized_def supported_types_def has_type_def dict_get_def)

lemma sample_fields_ok:
  "fields_ok text_question" "fields_ok unknown_question" "fields_ok checkbox_question"
  by (simp_all add: sample_defs fields_ok_def has_type_def dict_get_def)

lemma mixed_fields_ok: "list_all fields_ok mixed_questions"
  by (simp add: mixed_questions_def sample_fields_ok)

lemma mixed_recognized:
  "recognized (mixed_questions ! 0)" "\<not> recognized (mixed_questions ! 1)"
  "recognized (mixed_questions ! 2)"
  by (simp_all add: mixed_questions_def sample_defs recognized_def supported_types_def
        has_type_def dict_get_def)

text \<open>
  C1. Provided the kind-specific fields that are present can be processed, the builder
  returns a list with exactly one request for every question whose type is one of the
  six recognized tags and none for any other question: the number of requests is the
  number of recognized questions, at most the number of questions, and every request
  carries the input index of a recognized question as its location index.
\<close>

theorem one_request_per_recognized_question:
  assumes "list_all fields_ok qs"
  shows "\<exists>rs. build_question_requests s qs = Inr rs
     \<and> length rs = length (filter recognized qs)
     \<and> length rs \<le> length qs
     \<and> (\<forall>j < length qs. length (requests_at rs j) = (if recognized (qs ! j) then 1 else 0))
     \<and> (\<forall>r \<in> set rs. \<exists>j < length qs. recognized (qs ! j) \<and> location_index r = Some (PInt (int j)))"
proof -
  let ?rs = "collected s 0 qs"
  have ok: "\<And>j. j < length qs \<Longrightarrow> fields_ok (qs ! j)"
    using assms by (simp add: list_all_length)
  have run: "build_question_requests s qs = Inr ?rs" by (rule build_ok[OF assms])
  have len: "length ?rs = length (filter recognized qs)" by (rule collected_length[OF assms])
  have le: "length ?rs \<le> length qs" unfolding len by (rule length_filter_le)
  have at: "\<forall>j < length qs. length (requests_at ?rs j) = (if recognized (qs ! j) then 1 else 0)"
    by (simp add: collected_at_0 out_length ok)
  have pos: "map location_index ?rs
      = map (\<lambda>j. Some (PInt (int j))) (filter (\<lambda>j. recognized (qs ! j)) [0..<length qs])"
    using collected_positions[OF assms, of s 0] by simp
  have mem: "\<forall>r \<in> set ?rs. \<exists>j < length qs. recognized (qs ! j) \<and> location_index r = Some (PInt (int j))"
  proof
    fix r assume "r \<in> set ?rs"
    then have "location_index r \<in> set (map location_index ?rs)" by simp
    then obtain j where "j \<in> set (filter (\<lambda>j. recognized (qs ! j)) [0..<length qs])"
      and "location_index r = Some (PInt (int j))"
      unfolding pos by auto
    then show "\<exists>j < length qs. recognized (qs ! j) \<and> location_index r = Some (PInt (int j))"
      by auto
  qed
  from run len le at mem show ?thesis by blast
qed

theorem one_request_per_recognized_question_witness:
  "list_all fields_ok mixed_questions \<and>
   (\<exists>rs. build_question_requests str_other_sample mixed_questions = Inr rs
     \<and> length rs = 2
     \<and> length (requests_at rs 0) = 1 \<and> length (requests_at rs 1) = 0
     \<and> length (requests_at rs 2) = 1)"
proof -
  obtain rs where rs: "build_question_requests str_other_sample mixed_questions = Inr rs"
    and len: "length rs = length (filter recognized mixed_questions)"
    and at: "\<forall>j < length mixed_questions.
        length (requests_at rs j) = (if recognized (mixed_questions ! j) then 1 else 0)"
    using one_request_per_recognized_question[OF mixed_fields_ok, of str_other_sample] by blast
  have n: "length mixed_questions = 3" by (simp add: mixed_questions_def)
  have f: "filter recognized mixed_questions = [mixed_questions ! 0, mixed_questions ! 2]"
    using mixed_recognized by (simp add: mixed_questions_def)
  have "length (requests_at rs 0) = 1" "length (requests_at rs 1) = 0" "length (requests_at rs 2) = 1"
    using at n mixed_recognized by simp_all
  with rs len f mixed_fields_ok show ?thesis by simp
qed

lemma payload_key:
  assumes "fields_ok q" "question_payload s q = Inr (Some (k, v))"
  shows "k \<noteq> ''required''"
proof -
  have "recognized q"
  proof (rule ccontr)
    assume "\<not> recognized q"
    then have "question_payload s q = Inr None" by (rule payload_None)
    with assms(2) show False by simp
  qed
  then obtain k' v' where "question_payload s q = Inr (Some (k', v'))" "k' \<noteq> ''required''"
    using payload_Some[OF _ assms(1)] by blast
  with assms(2) show ?thesis by simp
qed

lemma request_for_payload:
  assumes "list_all fields_ok qs" "j < length qs"
    and "question_payload s (qs ! j) = Inr (Some (k, v))"
  shows "\<exists>rs r. build_question_requests s qs = Inr rs \<and> requests_at rs j = [r] \<and>
     py_path r [''createItem'', ''item'', ''questionItem'', ''question'', k] = Some v \<and>
     py_path r [''createItem'', ''item'', ''title''] = Some (dict_get (qs ! j) ''title'' PNone) \<and>
     py_path r [''createItem'', ''item'', ''description'']
       = Some (dict_get (qs ! j) ''description'' PNone) \<and>
     py_path r [''createItem'', ''item'', ''questionItem'', ''question'', ''required'']
       = Some (dict_get (qs ! j) ''required'' (PBool False)) \<and>
     location_index r = Some (PInt (int j))"
proof -
  have ok: "fields_ok (qs ! j)" using assms(1,2) by (simp add: list_all_length)
  have key: "k \<noteq> ''required''" by (rule payload_key[OF ok assms(3)])
  obtain r where r: "build_request s j (qs ! j) = Inr (Some r)"
    and p1: "py_path r [''createItem'', ''item'', ''title''] = Some (dict_get (qs ! j) ''title'' PNone)"
    and p2: "py_path r [''createItem'', ''item'', ''description'']
       = Some (dict_get (qs ! j) ''description'' PNone)"
    and p3: "py_path r [''createItem'', ''item'', ''questionItem'', ''question'', ''required'']
       = Some (dict_get (qs ! j) ''required'' (PBool False))"
    and p4: "location_index r = Some (PInt (int j))"
    using item_paths[OF assms(3) key, of j] by blast
  obtain r' where r': "build_request s j (qs ! j) = Inr (Some r')"
    and p5: "py_path r' [''createItem'', ''item'', ''questionItem'', ''question'', k] = Some v"
    using payload_path[OF assms(3), of j] by blast
  have same: "r' = r" using r r' by simp
  have run: "build_question_requests s qs = Inr (collected s 0 qs)" by (rule build_ok[OF assms(1)])
  have at: "requests_at (collected s 0 qs) j = [r]" by (rule produced_at[OF assms(2) r])
  from run at p1 p2 p3 p4 p5 same show ?thesis by blast
qed

lemma has_type_recognized:
  "has_type q ''TEXT_QUESTION'' \<Longrightarrow> recognized q"
  "has_type q ''MULTIPLE_CHOICE_QUESTION'' \<Longrightarrow> recognized q"
  "has_type q ''SCALE_QUESTION'' \<Longrightarrow> recognized q"
  "has_type q ''CHECKBOX_QUESTION'' \<Longrightarrow> recognized q"
  "has_type q ''DATE_QUESTION'' \<Longrightarrow> recognized q"
  "has_type q ''TIME_QUESTION'' \<Longrightarrow> recognized q"
  by (simp_all add: recognized_def supported_types_def)

lemma not_recognized_fields_ok: "\<not> recognized q \<Longrightarrow> fields_ok q"
  by (simp add: recognized_def supported_types_def fields_ok_def)

lemma text_fields_ok: "has_type q ''TEXT_QUESTION'' \<Longrightarrow> fields_ok q"
  by (simp add: fields_ok_def has_type_def)

section \<open>Claims on positions\<close>

text \<open>
  C2. The location indices of the returned requests are the input indices
  \<open>0 .. k-1\<close> (\<open>k\<close> the number of questions) restricted to the recognized questions,
  in order: they are assigned before the unsupported questions are dropped and are
  not renumbered. For a TEXT question followed by a question of unsupported type
  and a CHECKBOX question the builder returns two requests with indices 0 and 2.
\<close>

theorem positions_are_input_indices:
  "(list_all fields_ok qs \<longrightarrow>
      (\<exists>rs. build_question_requests s qs = Inr rs \<and>
         map location_index rs
           = map (\<lambda>j. Some (PInt (int j))) (filter (\<lambda>j. recognized (qs ! j)) [0..<length qs])))
   \<and> (has_type q0 ''TEXT_QUESTION'' \<and> \<not> recognized q1 \<and>
        has_type q2 ''CHECKBOX_QUESTION'' \<and> fields_ok q2 \<longrightarrow>
      (\<exists>r0 r2. build_question_requests s [q0, q1, q2] = Inr [r0, r2] \<and>
         location_index r0 = Some (PInt 0) \<and> location_index r2 = Some (PInt 2)))"
proof (intro conjI impI)
  assume ok: "list_all fields_ok qs"
  have "map location_index (collected s 0 qs)
      = map (\<lambda>j. Some (PInt (int j))) (filter (\<lambda>j. recognized (qs ! j)) [0..<length qs])"
    using collected_positions[OF ok, of s 0] by simp
  with build_ok[OF ok, of s]
  show "\<exists>rs. build_question_requests s qs = Inr rs \<and>
         map location_index rs
           = map (\<lambda>j. Some (PInt (int j))) (filter (\<lambda>j. recognized (qs ! j)) [0..<length qs])"
    by blast
next
  assume h: "has_type q0 ''TEXT_QUESTION'' \<and> \<not> recognized q1 \<and>
        has_type q2 ''CHECKBOX_QUESTION'' \<and> fields_ok q2"
  then have t0: "has_type q0 ''TEXT_QUESTION''" and n1: "\<not> recognized q1"
    and t2: "has_type q2 ''CHECKBOX_QUESTION''" and ok2: "fields_ok q2" by simp_all
  have ok: "list_all fields_ok [q0, q1, q2]"
    using text_fields_ok[OF t0] not_recognized_fields_ok[OF n1] ok2 by simp
  obtain r0 where r0: "build_request s 0 q0 = Inr (Some r0)"
    using request_Some[OF has_type_recognized(1)[OF t0] text_fields_ok[OF t0]] by blast
  have r1: "build_request s (Suc 0) q1 = Inr None" by (rule request_None[OF n1])
  obtain r2 where r2: "build_request s (Suc (Suc 0)) q2 = Inr (Some r2)"
    using request_Some[OF has_type_recognized(4)[OF t2] ok2] by blast
  have "collected s 0 [q0, q1, q2] = [r0, r2]"
    by (simp add: out_Some[OF r0] out_None[OF r1] out_Some[OF r2])
  then have run: "build_question_requests s [q0, q1, q2] = Inr [r0, r2]"
    using build_ok[OF ok, of s] by simp
  have i0: "location_index r0 = Some (PInt 0)" using request_index[OF r0] by simp
  have i2: "location_index r2 = Some (PInt 2)" using request_index[OF r2] by simp
  from run i0 i2
  show "\<exists>r0 r2. build_question_requests s [q0, q1, q2] = Inr [r0, r2] \<and>
         location_index r0 = Some (PInt 0) \<and> location_index r2 = Some (PInt 2)"
    by blast
qed

theorem positions_are_input_indices_witness:
  "list_all fields_ok mixed_questions \<and>
   (\<exists>rs. build_question_requests str_other_sample mixed_questions = Inr rs \<and>
      map location_index rs = [Some (PInt 0), Some (PInt 2)]) \<and>
   has_type text_question ''TEXT_QUESTION'' \<and> \<not> recognized unknown_question \<and>
   has_type checkbox_question ''CHECKBOX_QUESTION'' \<and> fields_ok checkbox_question \<and>
   (\<exists>r0 r2. build_question_requests str_other_sample
        [text_question, unknown_question, checkbox_question] = Inr [r0, r2] \<and>
      location_index r0 = Some (PInt 0) \<and> location_index r2 = Some (PInt 2))"
proof -
  note inst = positions_are_input_indices[of mixed_questions str_other_sample
      text_question unknown_question checkbox_question]
  have f: "filter (\<lambda>j. recognized (mixed_questions ! j)) [0..<length mixed_questions] = [0, 2]"
  proof -
    have "[0..<length mixed_questions] = [0, 1, 2]"
      by (simp add: mixed_questions_def upt_rec)
    then show ?thesis using mixed_recognized by simp
  qed
  have a: "\<exists>rs. build_question_requests str_other_sample mixed_questions = Inr rs \<and>
      map location_index rs = [Some (PInt 0), Some (PInt 2)]"
    using inst mixed_fields_ok unfolding f by simp
  have b: "\<exists>r0 r2. build_question_requests str_other_sample
        [text_question, unknown_question, checkbox_question] = Inr [r0, r2] \<and>
      location_index r0 = Some (PInt 0) \<and> location_index r2 = Some (PInt 2)"
    using inst sample_types sample_fields_ok(3) by blast
  from a b mixed_fields_ok sample_types sample_fields_ok(3) show ?thesis by blast
qed

lemma dict_get_Some: "map_of d k = Some v \<Longrightarrow> dict_get d k dflt = v"
  by (simp add: dict_get_def)

lemma dict_get_None: "map_of d k = None \<Longrightarrow> dict_get d k dflt = dflt"
  by (simp add: dict_get_def)

lemma request_for_payload_fields:
  assumes "list_all fields_ok qs" "j < length qs"
    and "question_payload s (qs ! j) = Inr (Some (k, v))"
  shows "\<exists>rs r. build_question_requests s qs = Inr rs \<and> requests_at rs j = [r] \<and>
     question_field r k = Some v \<and>
     item_field r ''title'' = Some (dict_get (qs ! j) ''title'' PNone) \<and>
     item_field r ''description'' = Some (dict_get (qs ! j) ''description'' PNone) \<and>
     question_field r ''required'' = Some (dict_get (qs ! j) ''required'' (PBool False)) \<and>
     location_index r = Some (PInt (int j))"
  unfolding question_field_def item_field_def by (rule request_for_payload[OF assms])

section \<open>Claims on the payloads\<close>

text \<open>
  C3. For a MULTIPLE_CHOICE and for a CHECKBOX question whose \<open>options\<close> field is a
  list, the choice payload of the request built for it lists the options in the same
  order, each wrapped as \<open>{value: option}\<close>; the payload has type \<open>RADIO\<close>
  (single select) for MULTIPLE_CHOICE and \<open>CHECKBOX\<close> (multiple select) for CHECKBOX.
\<close>

theorem choice_options_preserved:
  assumes "list_all fields_ok qs" and "j < length qs"
    and "map_of (qs ! j) ''options'' = Some (PList opts)"
  shows "(has_type (qs ! j) ''MULTIPLE_CHOICE_QUESTION'' \<longrightarrow>
           (\<exists>rs r. build_question_requests s qs = Inr rs \<and> requests_at rs j = [r] \<and>
              question_field r ''choiceQuestion'' = Some (PDict
                [(''type'', PStr ''RADIO''),
                 (''options'', PList (map (\<lambda>opt. PDict [(''value'', opt)]) opts))])))
       \<and> (has_type (qs ! j) ''CHECKBOX_QUESTION'' \<longrightarrow>
           (\<exists>rs r. build_question_requests s qs = Inr rs \<and> requests_at rs j = [r] \<and>
              question_field r ''choiceQuestion'' = Some (PDict
                [(''type'', PStr ''CHECKBOX''),
                 (''options'', PList (map (\<lambda>opt. PDict [(''value'', opt)]) opts))])))"
proof -
  have it: "py_iter (dict_get (qs ! j) ''options'' (PList [])) = Inr opts"
    by (simp add: dict_get_Some[OF assms(3)])
  show ?thesis
  proof (intro conjI impI)
    assume t: "has_type (qs ! j) ''MULTIPLE_CHOICE_QUESTION''"
    show "\<exists>rs r. build_question_requests s qs = Inr rs \<and> requests_at rs j = [r] \<and>
              question_field r ''choiceQuestion'' = Some (PDict
                [(''type'', PStr ''RADIO''),
                 (''options'', PList (map (\<lambda>opt. PDict [(''value'', opt)]) opts))])"
      using request_for_payload_fields[OF assms(1,2) payload_multiple_choice[OF t it]] by blast
  next
    assume t: "has_type (qs ! j) ''CHECKBOX_QUESTION''"
    show "\<exists>rs r. build_question_requests s qs = Inr rs \<and> requests_at rs j = [r] \<and>
              question_field r ''choiceQuestion'' = Some (PDict
                [(''type'', PStr ''CHECKBOX''),
                 (''options'', PList (map (\<lambda>opt. PDict [(''value'', opt)]) opts))])"
      using request_for_payload_fields[OF assms(1,2) payload_checkbox[OF t it]] by blast
  qed
qed

lemma choice_samples_ok: "list_all fields_ok [multiple_choice_question, checkbox_question]"
  by (simp add: multiple_choice_question_def checkbox_question_def fields_ok_def has_type_def
        dict_get_def)

theorem choice_options_preserved_witness:
  "list_all fields_ok [multiple_choice_question, checkbox_question] \<and>
   (\<exists>rs r. build_question_requests str_other_sample [multiple_choice_question, checkbox_question]
        = Inr rs \<and> requests_at rs 0 = [r] \<and>
      question_field r ''choiceQuestion'' = Some (PDict
        [(''type'', PStr ''RADIO''),
         (''options'', PList [PDict [(''value'', PStr ''Red'')], PDict [(''value'', PStr ''Green'')],
                              PDict [(''value'', PStr ''Blue'')]])])) \<and>
   (\<exists>rs r. build_question_requests str_other_sample [multiple_choice_question, checkbox_question]
        = Inr rs \<and> requests_at rs 1 = [r] \<and>
      question_field r ''choiceQuestion'' = Some (PDict
        [(''type'', PStr ''CHECKBOX''),
         (''options'', PList [PDict [(''value'', PStr ''a'')], PDict [(''value'', PStr ''b'')]])]))"
proof -
  let ?qs = "[multiple_choice_question, checkbox_question]"
  have o0: "map_of (?qs ! 0) ''options'' = Some (PList [PStr ''Red'', PStr ''Green'', PStr ''Blue''])"
    by (simp add: multiple_choice_question_def)
  have o1: "map_of (?qs ! 1) ''options'' = Some (PList [PStr ''a'', PStr ''b''])"
    by (simp add: checkbox_question_def)
  have t0: "has_type (?qs ! 0) ''MULTIPLE_CHOICE_QUESTION''"
    by (simp add: multiple_choice_question_def has_type_def dict_get_def)
  have t1: "has_type (?qs ! 1) ''CHECKBOX_QUESTION''"
    by (simp add: checkbox_question_def has_type_def dict_get_def)
  have l0: "0 < length ?qs" and l1: "1 < length ?qs" by simp_all
  from choice_options_preserved[OF choice_samples_ok l0 o0, of str_other_sample] t0
  have a: "\<exists>rs r. build_question_requests str_other_sample ?qs = Inr rs \<and> requests_at rs 0 = [r] \<and>
      question_field r ''choiceQuestion'' = Some (PDict
        [(''type'', PStr ''RADIO''),
         (''options'', PList [PDict [(''value'', PStr ''Red'')], PDict [(''value'', PStr ''Green'')],
                              PDict [(''value'', PStr ''Blue'')]])])"
    by simp
  from choice_options_preserved[OF choice_samples_ok l1 o1, of str_other_sample] t1
  have b: "\<exists>rs r. build_question_requests str_other_sample ?qs = Inr rs \<and> requests_at rs 1 = [r] \<and>
      question_field r ''choiceQuestion'' = Some (PDict
        [(''type'', PStr ''CHECKBOX''),
         (''options'', PList [PDict [(''value'', PStr ''a'')], PDict [(''value'', PStr ''b'')]])])"
    by simp
  from a b choice_samples_ok show ?thesis by blast
qed

lemma str_int_1: "str_int 1 = ''1''"
  by (simp add: str_int_def str_nat_small digit_char_def)

lemma str_int_5: "str_int 5 = ''5''"
  by (simp add: str_int_def str_nat_small digit_char_def)

lemma scale_labels_dict:
  assumes "fields_ok q" "has_type q ''SCALE_QUESTION''"
  shows "\<exists>labels. dict_get q ''scale_labels'' (PDict []) = PDict labels"
  using assms by (simp add: fields_ok_def is_dict_conv)

text \<open>
  C4. For a SCALE question the scale payload carries \<open>scale_min\<close> and \<open>scale_max\<close> as
  \<open>low\<close> and \<open>high\<close>, and as \<open>lowLabel\<close> and \<open>highLabel\<close> the entries of
  \<open>scale_labels\<close> under the keys \<open>str(scale_min)\<close> and \<open>str(scale_max)\<close>. With
  bounds 1 and 5 and labels \<open>{"1": "Low", "5": "High"}\<close> the payload is
  low 1, high 5, lowLabel "Low", highLabel "High"; without \<open>scale_labels\<close> the bounds
  are set and both labels are \<open>None\<close>.
\<close>

theorem scale_payload:
  assumes "list_all fields_ok qs" and "j < length qs"
    and "has_type (qs ! j) ''SCALE_QUESTION''"
  shows "\<exists>rs r labels. build_question_requests s qs = Inr rs \<and> requests_at rs j = [r] \<and>
     dict_get (qs ! j) ''scale_labels'' (PDict []) = PDict labels \<and>
     question_field r ''scaleQuestion'' = Some (PDict
       [(''low'', dict_get (qs ! j) ''scale_min'' PNone),
        (''high'', dict_get (qs ! j) ''scale_max'' PNone),
        (''lowLabel'', dict_get labels (py_str s (dict_get (qs ! j) ''scale_min'' PNone)) PNone),
        (''highLabel'', dict_get labels (py_str s (dict_get (qs ! j) ''scale_max'' PNone)) PNone)]) \<and>
     (map_of (qs ! j) ''scale_min'' = Some (PInt 1) \<and> map_of (qs ! j) ''scale_max'' = Some (PInt 5) \<and>
      map_of labels ''1'' = Some (PStr ''Low'') \<and> map_of labels ''5'' = Some (PStr ''High'') \<longrightarrow>
        question_field r ''scaleQuestion'' = Some (PDict
          [(''low'', PInt 1), (''high'', PInt 5),
           (''lowLabel'', PStr ''Low''), (''highLabel'', PStr ''High'')])) \<and>
     (map_of (qs ! j) ''scale_labels'' = None \<longrightarrow>
        question_field r ''scaleQuestion'' = Some (PDict
          [(''low'', dict_get (qs ! j) ''scale_min'' PNone),
           (''high'', dict_get (qs ! j) ''scale_max'' PNone),
           (''lowLabel'', PNone), (''highLabel'', PNone)]))"
proof -
  let ?q = "qs ! j"
  have ok: "fields_ok ?q" using assms(1,2) by (simp add: list_all_length)
  obtain labels where labels: "dict_get ?q ''scale_labels'' (PDict []) = PDict labels"
    using scale_labels_dict[OF ok assms(3)] by blast
  let ?payload = "PDict
       [(''low'', dict_get ?q ''scale_min'' PNone),
        (''high'', dict_get ?q ''scale_max'' PNone),
        (''lowLabel'', dict_get labels (py_str s (dict_get ?q ''scale_min'' PNone)) PNone),
        (''highLabel'', dict_get labels (py_str s (dict_get ?q ''scale_max'' PNone)) PNone)]"
  obtain rs r where run: "build_question_requests s qs = Inr rs" and at: "requests_at rs j = [r]"
    and field: "question_field r ''scaleQuestion'' = Some ?payload"
    using request_for_payload_fields[OF assms(1,2) payload_scale[OF assms(3) labels]] by blast
  have example: "map_of ?q ''scale_min'' = Some (PInt 1) \<and> map_of ?q ''scale_max'' = Some (PInt 5) \<and>
      map_of labels ''1'' = Some (PStr ''Low'') \<and> map_of labels ''5'' = Some (PStr ''High'') \<longrightarrow>
        question_field r ''scaleQuestion'' = Some (PDict
          [(''low'', PInt 1), (''high'', PInt 5),
           (''lowLabel'', PStr ''Low''), (''highLabel'', PStr ''High'')])"
  proof
    assume h: "map_of ?q ''scale_min'' = Some (PInt 1) \<and> map_of ?q ''scale_max'' = Some (PInt 5) \<and>
      map_of labels ''1'' = Some (PStr ''Low'') \<and> map_of labels ''5'' = Some (PStr ''High'')"
    then have lo: "dict_get ?q ''scale_min'' PNone = PInt 1"
      and hi: "dict_get ?q ''scale_max'' PNone = PInt 5"
      and l1: "dict_get labels ''1'' PNone = PStr ''Low''"
      and l5: "dict_get labels ''5'' PNone = PStr ''High''"
      by (simp_all add: dict_get_Some)
    show "question_field r ''scaleQuestion'' = Some (PDict
          [(''low'', PInt 1), (''high'', PInt 5),
           (''lowLabel'', PStr ''Low''), (''highLabel'', PStr ''High'')])"
      unfolding field lo hi by (simp add: str_int_1 str_int_5 l1 l5)
  qed
  have unlabelled: "map_of ?q ''scale_labels'' = None \<longrightarrow>
        question_field r ''scaleQuestion'' = Some (PDict
          [(''low'', dict_get ?q ''scale_min'' PNone),
           (''high'', dict_get ?q ''scale_max'' PNone),
           (''lowLabel'', PNone), (''highLabel'', PNone)])"
  proof
    assume "map_of ?q ''scale_labels'' = None"
    then have "dict_get ?q ''scale_labels'' (PDict []) = PDict []" by (rule dict_get_None)
    with labels have "labels = []" by simp
    then show "question_field r ''scaleQuestion'' = Some (PDict
          [(''low'', dict_get ?q ''scale_min'' PNone),
           (''high'', dict_get ?q ''scale_max'' PNone),
           (''lowLabel'', PNone), (''highLabel'', PNone)])"
      unfolding field by (simp add: dict_get_def)
  qed
  show ?thesis
    apply (rule exI[of _ rs], rule exI[of _ r], rule exI[of _ labels])
    apply (insert run at labels field example unlabelled)
    by (intro conjI; assumption)
qed

lemma scale_samples_ok: "list_all fields_ok [scale_question, unlabelled_scale_question]"
  by (simp add: scale_question_def unlabelled_scale_question_def fields_ok_def has_type_def
        dict_get_def)

theorem scale_payload_witness:
  "list_all fields_ok [scale_question, unlabelled_scale_question] \<and>
   has_type scale_question ''SCALE_QUESTION'' \<and>
   has_type unlabelled_scale_question ''SCALE_QUESTION'' \<and>
   (\<exists>rs r. build_question_requests str_other_sample [scale_question, unlabelled_scale_question]
        = Inr rs \<and> requests_at rs 0 = [r] \<and>
      question_field r ''scaleQuestion'' = Some (PDict
        [(''low'', PInt 1), (''high'', PInt 5),
         (''lowLabel'', PStr ''Low''), (''highLabel'', PStr ''High'')])) \<and>
   (\<exists>rs r. build_question_requests str_other_sample [scale_question, unlabelled_scale_question]
        = Inr rs \<and> requests_at rs 1 = [r] \<and>
      question_field r ''scaleQuestion'' = Some (PDict
        [(''low'', PInt 1), (''high'', PInt 5), (''lowLabel'', PNone), (''highLabel'', PNone)]))"
proof -
  let ?qs = "[scale_question, unlabelled_scale_question]"
  have t0: "has_type (?qs ! 0) ''SCALE_QUESTION''"
    by (simp add: scale_question_def has_type_def dict_get_def)
  have t1: "has_type (?qs ! 1) ''SCALE_QUESTION''"
    by (simp add: unlabelled_scale_question_def has_type_def dict_get_def)
  have l0: "0 < length ?qs" and l1: "1 < length ?qs" by simp_all
  have a: "\<exists>rs r. build_question_requests str_other_sample ?qs = Inr rs \<and> requests_at rs 0 = [r] \<and>
      question_field r ''scaleQuestion'' = Some (PDict
        [(''low'', PInt 1), (''high'', PInt 5),
         (''lowLabel'', PStr ''Low''), (''highLabel'', PStr ''High'')])"
  proof -
    obtain rs r labels where run: "build_question_requests str_other_sample ?qs = Inr rs"
      and at: "requests_at rs 0 = [r]"
      and labels: "dict_get (?qs ! 0) ''scale_labels'' (PDict []) = PDict labels"
      and ex: "map_of (?qs ! 0) ''scale_min'' = Some (PInt 1) \<and>
          map_of (?qs ! 0) ''scale_max'' = Some (PInt 5) \<and>
          map_of labels ''1'' = Some (PStr ''Low'') \<and> map_of labels ''5'' = Some (PStr ''High'') \<longrightarrow>
        question_field r ''scaleQuestion'' = Some (PDict
          [(''low'', PInt 1), (''high'', PInt 5),
           (''lowLabel'', PStr ''Low''), (''highLabel'', PStr ''High'')])"
      using scale_payload[OF scale_samples_ok l0 t0, of str_other_sample]
      by (elim exE conjE) (rule that)
    have "labels = [(''1'', PStr ''Low''), (''5'', PStr ''High'')]"
      using labels by (simp add: scale_question_def dict_get_def)
    then have "question_field r ''scaleQuestion'' = Some (PDict
          [(''low'', PInt 1), (''high'', PInt 5),
           (''lowLabel'', PStr ''Low''), (''highLabel'', PStr ''High'')])"
      using ex by (simp add: scale_question_def)
    with run at show ?thesis by blast
  qed
  have b: "\<exists>rs r. build_question_requests str_other_sample ?qs = Inr rs \<and> requests_at rs 1 = [r] \<and>
      question_field r ''scaleQuestion'' = Some (PDict
        [(''low'', PInt 1), (''high'', PInt 5), (''lowLabel'', PNone), (''highLabel'', PNone)])"
  proof -
    obtain rs r where run: "build_question_requests str_other_sample ?qs = Inr rs"
      and at: "requests_at rs 1 = [r]"
      and un: "map_of (?qs ! 1) ''scale_labels'' = None \<longrightarrow>
        question_field r ''scaleQuestion'' = Some (PDict
          [(''low'', dict_get (?qs ! 1) ''scale_min'' PNone),
           (''high'', dict_get (?qs ! 1) ''scale_max'' PNone),
           (''lowLabel'', PNone), (''highLabel'', PNone)])"
      using scale_payload[OF scale_samples_ok l1 t1, of str_other_sample]
      by (elim exE conjE) (rule that)
    have "question_field r ''scaleQuestion'' = Some (PDict
        [(''low'', PInt 1), (''high'', PInt 5), (''lowLabel'', PNone), (''highLabel'', PNone)])"
      using un by (simp add: unlabelled_scale_question_def dict_get_def)
    with run at show ?thesis by blast
  qed
  from a b scale_samples_ok t0 t1 show ?thesis by simp
qed

text \<open>
  C5. For a DATE question that supplies neither \<open>include_time\<close> nor \<open>include_year\<close>
  the date payload is \<open>includeTime = False\<close>, \<open>includeYear = True\<close>.
\<close>

theorem date_defaults:
  assumes "list_all fields_ok qs" and "j < length qs"
    and "has_type (qs ! j) ''DATE_QUESTION''"
    and "map_of (qs ! j) ''include_time'' = None"
    and "map_of (qs ! j) ''include_year'' = None"
  shows "\<exists>rs r. build_question_requests s qs = Inr rs \<and> requests_at rs j = [r] \<and>
     question_field r ''dateQuestion''
       = Some (PDict [(''includeTime'', PBool False), (''includeYear'', PBool True)])"
proof -
  have "question_payload s (qs ! j) = Inr (Some (''dateQuestion'',
     PDict [(''includeTime'', PBool False), (''includeYear'', PBool True)]))"
    using payload_date[OF assms(3), of s]
    by (simp only: dict_get_None[OF assms(4)] dict_get_None[OF assms(5)])
  from request_for_payload_fields[OF assms(1,2) this] show ?thesis by blast
qed

theorem date_defaults_witness:
  "list_all fields_ok [date_question] \<and> has_type date_question ''DATE_QUESTION'' \<and>
   map_of date_question ''include_time'' = None \<and> map_of date_question ''include_year'' = None \<and>
   (\<exists>rs r. build_question_requests str_other_sample [date_question] = Inr rs \<and>
      requests_at rs 0 = [r] \<and>
      question_field r ''dateQuestion''
        = Some (PDict [(''includeTime'', PBool False), (''includeYear'', PBool True)]))"
proof -
  have ok: "list_all fields_ok [date_question]"
    by (simp add: date_question_def fields_ok_def has_type_def dict_get_def)
  have t: "has_type ([date_question] ! 0) ''DATE_QUESTION''"
    by (simp add: date_question_def has_type_def dict_get_def)
  have n1: "map_of ([date_question] ! 0) ''include_time'' = None"
    and n2: "map_of ([date_question] ! 0) ''include_year'' = None"
    by (simp_all add: date_question_def)
  have l: "0 < length [date_question]" by simp
  from date_defaults[OF ok l t n1 n2, of str_other_sample] ok t n1 n2 show ?thesis by simp
qed

lemma present_fields_ok_imp: "present_fields_ok q \<Longrightarrow> fields_ok q"
  by (auto simp: present_fields_ok_def fields_ok_def dict_get_def split: option.splits)

lemma build_returns_iff:
  "(\<exists>rs. build_question_requests s qs = Inr rs) = list_all fields_ok qs"
proof (cases "list_all fields_ok qs")
  case True
  then show ?thesis using build_ok[OF True, of s] by simp
next
  case False
  then obtain e where "build_question_requests s qs = Inl e"
    using build_raises[of qs s] by blast
  with False show ?thesis by simp
qed

section \<open>Claims on errors and missing fields\<close>

text \<open>
  C6 as stated fails: a SCALE question whose \<open>scale_labels\<close> is present but
  \<open>None\<close> makes the builder raise \<open>AttributeError\<close>.
\<close>

theorem builder_raises_on_null_scale_labels:
  "build_question_requests str_other_sample [null_labels_question] = Inl AttributeError"
  by (simp add: build_question_requests_def build_request_def question_payload_def
        null_labels_question_def dict_get_def)

text \<open>
  C6, amended. The builder returns without an exception exactly when every
  MULTIPLE_CHOICE or CHECKBOX question has an iterable \<open>options\<close> value (or none) and
  every SCALE question has a dictionary as \<open>scale_labels\<close> (or none). In particular
  it returns whenever the \<open>options\<close> and \<open>scale_labels\<close> fields that are present have
  these shapes, so a missing field never raises; and a MULTIPLE_CHOICE or CHECKBOX
  question without \<open>options\<close> gets an empty option list.
\<close>

theorem no_exception_when_fields_processable:
  "((\<exists>rs. build_question_requests s qs = Inr rs) = list_all fields_ok qs)
   \<and> (list_all present_fields_ok qs \<longrightarrow> (\<exists>rs. build_question_requests s qs = Inr rs))
   \<and> (list_all present_fields_ok qs \<and> j < length qs \<and> map_of (qs ! j) ''options'' = None \<and>
        (has_type (qs ! j) ''MULTIPLE_CHOICE_QUESTION'' \<or> has_type (qs ! j) ''CHECKBOX_QUESTION'') \<longrightarrow>
        (\<exists>rs r t. build_question_requests s qs = Inr rs \<and> requests_at rs j = [r] \<and>
           question_field r ''choiceQuestion''
             = Some (PDict [(''type'', PStr t), (''options'', PList [])])))"
proof (intro conjI impI)
  show "(\<exists>rs. build_question_requests s qs = Inr rs) = list_all fields_ok qs"
    by (rule build_returns_iff)
next
  assume "list_all present_fields_ok qs"
  then have "list_all fields_ok qs"
    by (simp add: list_all_iff present_fields_ok_imp)
  then show "\<exists>rs. build_question_requests s qs = Inr rs"
    by (simp add: build_returns_iff)
next
  assume h: "list_all present_fields_ok qs \<and> j < length qs \<and> map_of (qs ! j) ''options'' = None \<and>
        (has_type (qs ! j) ''MULTIPLE_CHOICE_QUESTION'' \<or> has_type (qs ! j) ''CHECKBOX_QUESTION'')"
  then have ok: "list_all fields_ok qs"
    by (simp add: list_all_iff present_fields_ok_imp)
  from h have j: "j < length qs" and none: "map_of (qs ! j) ''options'' = None" by simp_all
  have it: "py_iter (dict_get (qs ! j) ''options'' (PList [])) = Inr []"
    by (simp add: dict_get_None[OF none])
  from h consider (mc) "has_type (qs ! j) ''MULTIPLE_CHOICE_QUESTION''"
    | (cb) "has_type (qs ! j) ''CHECKBOX_QUESTION''" by blast
  then show "\<exists>rs r t. build_question_requests s qs = Inr rs \<and> requests_at rs j = [r] \<and>
           question_field r ''choiceQuestion''
             = Some (PDict [(''type'', PStr t), (''options'', PList [])])"
  proof cases
    case mc
    obtain rs r where "build_question_requests s qs = Inr rs" "requests_at rs j = [r]"
      "question_field r ''choiceQuestion''
         = Some (PDict [(''type'', PStr ''RADIO''), (''options'', PList [])])"
      using request_for_payload_fields[OF ok j payload_multiple_choice[OF mc it, of s]]
      by (elim exE conjE) (simp only: list.map that)
    then show ?thesis by blast
  next
    case cb
    obtain rs r where "build_question_requests s qs = Inr rs" "requests_at rs j = [r]"
      "question_field r ''choiceQuestion''
         = Some (PDict [(''type'', PStr ''CHECKBOX''), (''options'', PList [])])"
      using request_for_payload_fields[OF ok j payload_checkbox[OF cb it, of s]]
      by (elim exE conjE) (simp only: list.map that)
    then show ?thesis by blast
  qed
qed

theorem no_exception_when_fields_processable_witness:
  "list_all present_fields_ok [bare_choice_question] \<and>
   map_of bare_choice_question ''options'' = None \<and>
   has_type bare_choice_question ''MULTIPLE_CHOICE_QUESTION'' \<and>
   (\<exists>rs r t. build_question_requests str_other_sample [bare_choice_question] = Inr rs \<and>
      requests_at rs 0 = [r] \<and>
      question_field r ''choiceQuestion'' = Some (PDict [(''type'', PStr t), (''options'', PList [])]))"
proof -
  have ok: "list_all present_fields_ok [bare_choice_question]"
    by (simp add: present_fields_ok_def bare_choice_question_def)
  have none: "map_of ([bare_choice_question] ! 0) ''options'' = None"
    by (simp add: bare_choice_question_def)
  have t: "has_type ([bare_choice_question] ! 0) ''MULTIPLE_CHOICE_QUESTION''"
    by (simp add: bare_choice_question_def has_type_def dict_get_def)
  have l: "0 < length [bare_choice_question]" by simp
  from no_exception_when_fields_processable[of str_other_sample "[bare_choice_question]" 0]
    ok none t l
  show ?thesis by simp
qed

lemma payload_of_recognized:
  assumes "list_all fields_ok qs" "j < length qs" "recognized (qs ! j)"
  shows "\<exists>k v. question_payload s (qs ! j) = Inr (Some (k, v))"
proof -
  have "fields_ok (qs ! j)" using assms(1,2) by (simp add: list_all_length)
  from payload_Some[OF assms(3) this, of s] show ?thesis by blast
qed

lemma request_of_recognized:
  assumes "list_all fields_ok qs" "j < length qs" "recognized (qs ! j)"
  shows "\<exists>rs r. build_question_requests s qs = Inr rs \<and> requests_at rs j = [r] \<and>
     item_field r ''title'' = Some (dict_get (qs ! j) ''title'' PNone) \<and>
     item_field r ''description'' = Some (dict_get (qs ! j) ''description'' PNone) \<and>
     question_field r ''required'' = Some (dict_get (qs ! j) ''required'' (PBool False)) \<and>
     location_index r = Some (PInt (int j))"
proof -
  obtain k v where "question_payload s (qs ! j) = Inr (Some (k, v))"
    using payload_of_recognized[OF assms] by blast
  from request_for_payload_fields[OF assms(1,2) this] show ?thesis
    by (elim exE conjE) (intro exI conjI)
qed

lemma collected_member:
  "r \<in> set (collected s i qs) \<Longrightarrow> \<exists>j q. build_request s j q = Inr (Some r)"
proof (induction qs arbitrary: i)
  case Nil
  then show ?case by simp
next
  case (Cons q qs)
  from Cons.prems have "r \<in> set (out s i q) \<or> r \<in> set (collected s (Suc i) qs)" by simp
  then show ?case
  proof
    assume m: "r \<in> set (out s i q)"
    show ?thesis
    proof (cases rule: out_cases[of s i q])
      case (some r')
      with m have "r = r'" by simp
      with some(1) show ?thesis by blast
    next
      case none
      with m show ?thesis by simp
    qed
  next
    assume "r \<in> set (collected s (Suc i) qs)"
    then show ?thesis by (rule Cons.IH)
  qed
qed

lemma request_description:
  assumes "build_request s i q = Inr (Some r)"
  shows "item_field r ''description'' = Some (dict_get q ''description'' PNone)"
proof -
  obtain k v where "r = PDict
              [(''createItem'', PDict
                 [(''item'', PDict
                    [(''title'', dict_get q ''title'' PNone),
                     (''description'', dict_get q ''description'' PNone),
                     (''questionItem'', PDict [(''question'', PDict (AList.update k v [(''required'', dict_get q ''required'' (PBool False))]))])]),
                  (''location'', PDict [(''index'', PInt (int i))])])]"
    using request_shape[OF assms] by blast
  then show ?thesis by (simp add: item_field_def)
qed

section \<open>Claims on the common fields\<close>

text \<open>
  C7. The request built for a question of recognized type carries the question's
  \<open>title\<close>, \<open>description\<close> and \<open>required\<close> values unchanged (\<open>None\<close> for a missing
  title or description); \<open>required\<close> is \<open>False\<close> when the question omits it.
\<close>

theorem common_fields_copied:
  assumes "list_all fields_ok qs" and "j < length qs" and "recognized (qs ! j)"
  shows "\<exists>rs r. build_question_requests s qs = Inr rs \<and> requests_at rs j = [r] \<and>
     item_field r ''title'' = Some (dict_get (qs ! j) ''title'' PNone) \<and>
     item_field r ''description'' = Some (dict_get (qs ! j) ''description'' PNone) \<and>
     question_field r ''required'' = Some (dict_get (qs ! j) ''required'' (PBool False)) \<and>
     (\<forall>v. map_of (qs ! j) ''title'' = Some v \<longrightarrow> item_field r ''title'' = Some v) \<and>
     (\<forall>v. map_of (qs ! j) ''description'' = Some v \<longrightarrow> item_field r ''description'' = Some v) \<and>
     (\<forall>v. map_of (qs ! j) ''required'' = Some v \<longrightarrow> question_field r ''required'' = Some v) \<and>
     (map_of (qs ! j) ''required'' = None \<longrightarrow> question_field r ''required'' = Some (PBool False))"
proof -
  obtain rs r where run: "build_question_requests s qs = Inr rs" and at: "requests_at rs j = [r]"
    and t: "item_field r ''title'' = Some (dict_get (qs ! j) ''title'' PNone)"
    and d: "item_field r ''description'' = Some (dict_get (qs ! j) ''description'' PNone)"
    and q: "question_field r ''required'' = Some (dict_get (qs ! j) ''required'' (PBool False))"
    using request_of_recognized[OF assms, of s] by (elim exE conjE) (rule that)
  have t': "\<forall>v. map_of (qs ! j) ''title'' = Some v \<longrightarrow> item_field r ''title'' = Some v"
    unfolding t by (simp add: dict_get_def)
  have d': "\<forall>v. map_of (qs ! j) ''description'' = Some v \<longrightarrow> item_field r ''description'' = Some v"
    unfolding d by (simp add: dict_get_def)
  have q': "\<forall>v. map_of (qs ! j) ''required'' = Some v \<longrightarrow> question_field r ''required'' = Some v"
    unfolding q by (simp add: dict_get_def)
  have q0: "map_of (qs ! j) ''required'' = None \<longrightarrow> question_field r ''required'' = Some (PBool False)"
    unfolding q by (simp add: dict_get_def)
  show ?thesis
    apply (rule exI[of _ rs], rule exI[of _ r])
    apply (insert run at t d q t' d' q' q0)
    by (intro conjI; assumption)
qed

lemma common_samples_ok: "list_all fields_ok [described_question, text_question]"
  by (simp add: described_question_def text_question_def fields_ok_def has_type_def dict_get_def)

lemma common_samples_recognized:
  "recognized ([described_question, text_question] ! 0)"
  "recognized ([described_question, text_question] ! 1)"
  by (simp_all add: described_question_def text_question_def recognized_def supported_types_def
        has_type_def dict_get_def)

theorem common_fields_copied_witness:
  "list_all fields_ok [described_question, text_question] \<and>
   recognized described_question \<and> recognized text_question \<and>
   map_of text_question ''required'' = None \<and>
   (\<exists>rs r. build_question_requests str_other_sample [described_question, text_question] = Inr rs \<and>
      requests_at rs 0 = [r] \<and>
      item_field r ''title'' = Some (PStr ''Name'') \<and>
      item_field r ''description'' = Some (PStr ''Your full name'') \<and>
      question_field r ''required'' = Some (PBool True)) \<and>
   (\<exists>rs r. build_question_requests str_other_sample [described_question, text_question] = Inr rs \<and>
      requests_at rs 1 = [r] \<and>
      item_field r ''title'' = Some (PStr ''Name'') \<and>
      item_field r ''description'' = Some PNone \<and>
      question_field r ''required'' = Some (PBool False))"
proof -
  let ?qs = "[described_question, text_question]"
  have l0: "0 < length ?qs" and l1: "1 < length ?qs" by simp_all
  have a: "\<exists>rs r. build_question_requests str_other_sample ?qs = Inr rs \<and>
      requests_at rs 0 = [r] \<and>
      item_field r ''title'' = Some (PStr ''Name'') \<and>
      item_field r ''description'' = Some (PStr ''Your full name'') \<and>
      question_field r ''required'' = Some (PBool True)"
  proof -
    obtain rs r where run: "build_question_requests str_other_sample ?qs = Inr rs"
      and at: "requests_at rs 0 = [r]"
      and t: "\<forall>v. map_of (?qs ! 0) ''title'' = Some v \<longrightarrow> item_field r ''title'' = Some v"
      and d: "\<forall>v. map_of (?qs ! 0) ''description'' = Some v \<longrightarrow> item_field r ''description'' = Some v"
      and q: "\<forall>v. map_of (?qs ! 0) ''required'' = Some v \<longrightarrow> question_field r ''required'' = Some v"
      using common_fields_copied[OF common_samples_ok l0 common_samples_recognized(1), of str_other_sample]
      by (elim exE conjE) (rule that)
    have "item_field r ''title'' = Some (PStr ''Name'')"
      using t by (simp add: described_question_def)
    moreover have "item_field r ''description'' = Some (PStr ''Your full name'')"
      using d by (simp add: described_question_def)
    moreover have "question_field r ''required'' = Some (PBool True)"
      using q by (simp add: described_question_def)
    ultimately show ?thesis using run at by blast
  qed
  have b: "\<exists>rs r. build_question_requests str_other_sample ?qs = Inr rs \<and>
      requests_at rs 1 = [r] \<and>
      item_field r ''title'' = Some (PStr ''Name'') \<and>
      item_field r ''description'' = Some PNone \<and>
      question_field r ''required'' = Some (PBool False)"
  proof -
    obtain rs r where run: "build_question_requests str_other_sample ?qs = Inr rs"
      and at: "requests_at rs 1 = [r]"
      and t: "item_field r ''title'' = Some (dict_get (?qs ! 1) ''title'' PNone)"
      and d: "item_field r ''description'' = Some (dict_get (?qs ! 1) ''description'' PNone)"
      and q: "map_of (?qs ! 1) ''required'' = None \<longrightarrow> question_field r ''required'' = Some (PBool False)"
      using common_fields_copied[OF common_samples_ok l1 common_samples_recognized(2), of str_other_sample]
      by (elim exE conjE) (rule that)
    have "item_field r ''title'' = Some (PStr ''Name'')"
      using t by (simp add: text_question_def dict_get_def)
    moreover have "item_field r ''description'' = Some PNone"
      using d by (simp add: text_question_def dict_get_def)
    moreover have "question_field r ''required'' = Some (PBool False)"
      using q by (simp add: text_question_def)
    ultimately show ?thesis using run at by blast
  qed
  have n: "map_of text_question ''required'' = None" by (simp add: text_question_def)
  from a b n common_samples_ok common_samples_recognized show ?thesis by simp
qed

text \<open>
  C8. A question of recognized type without a \<open>title\<close> is not dropped: the builder
  returns a request for it, located at the question's input index, whose item title
  is \<open>None\<close>.
\<close>

theorem untitled_question_kept:
  assumes "list_all fields_ok qs" and "j < length qs" and "recognized (qs ! j)"
    and "map_of (qs ! j) ''title'' = None"
  shows "\<exists>rs r. build_question_requests s qs = Inr rs \<and> requests_at rs j = [r] \<and>
     location_index r = Some (PInt (int j)) \<and> item_field r ''title'' = Some PNone"
proof -
  obtain rs r where run: "build_question_requests s qs = Inr rs" and at: "requests_at rs j = [r]"
    and t: "item_field r ''title'' = Some (dict_get (qs ! j) ''title'' PNone)"
    and i: "location_index r = Some (PInt (int j))"
    using request_of_recognized[OF assms(1,2,3), of s] by (elim exE conjE) (rule that)
  have "item_field r ''title'' = Some PNone"
    unfolding t by (simp only: dict_get_None[OF assms(4)])
  with run at i show ?thesis by blast
qed

theorem untitled_question_kept_witness:
  "list_all fields_ok [text_question, bare_choice_question] \<and>
   recognized bare_choice_question \<and> map_of bare_choice_question ''title'' = None \<and>
   (\<exists>rs r. build_question_requests str_other_sample [text_question, bare_choice_question] = Inr rs \<and>
      requests_at rs 1 = [r] \<and> location_index r = Some (PInt 1) \<and>
      item_field r ''title'' = Some PNone)"
proof -
  let ?qs = "[text_question, bare_choice_question]"
  have ok: "list_all fields_ok ?qs"
    by (simp add: text_question_def bare_choice_question_def fields_ok_def has_type_def dict_get_def)
  have rec: "recognized (?qs ! 1)"
    by (simp add: bare_choice_question_def recognized_def supported_types_def has_type_def
          dict_get_def)
  have none: "map_of (?qs ! 1) ''title'' = None" by (simp add: bare_choice_question_def)
  have l: "1 < length ?qs" by simp
  from untitled_question_kept[OF ok l rec none, of str_other_sample] ok rec none
  show ?thesis by simp
qed

text \<open>
  C9. Every request the builder returns has a \<open>description\<close> key in its item; for a
  question that supplies no description the key is present and bound to \<open>None\<close>.
\<close>

theorem description_key_always_present:
  assumes "list_all fields_ok qs"
  shows "\<exists>rs. build_question_requests s qs = Inr rs \<and>
     (\<forall>r \<in> set rs. \<exists>v. item_field r ''description'' = Some v) \<and>
     (\<forall>j < length qs. recognized (qs ! j) \<and> map_of (qs ! j) ''description'' = None \<longrightarrow>
        (\<exists>r. requests_at rs j = [r] \<and> item_field r ''description'' = Some PNone))"
proof -
  let ?rs = "collected s 0 qs"
  have run: "build_question_requests s qs = Inr ?rs" by (rule build_ok[OF assms])
  have all: "\<forall>r \<in> set ?rs. \<exists>v. item_field r ''description'' = Some v"
  proof
    fix r assume "r \<in> set ?rs"
    then obtain j q where "build_request s j q = Inr (Some r)"
      using collected_member by blast
    from request_description[OF this] show "\<exists>v. item_field r ''description'' = Some v" by blast
  qed
  have absent: "\<forall>j < length qs. recognized (qs ! j) \<and> map_of (qs ! j) ''description'' = None \<longrightarrow>
        (\<exists>r. requests_at ?rs j = [r] \<and> item_field r ''description'' = Some PNone)"
  proof (intro allI impI)
    fix j assume j: "j < length qs"
      and h: "recognized (qs ! j) \<and> map_of (qs ! j) ''description'' = None"
    then have rec: "recognized (qs ! j)" and none: "map_of (qs ! j) ''description'' = None"
      by simp_all
    have ok: "fields_ok (qs ! j)" using assms j by (simp add: list_all_length)
    obtain r where r: "build_request s j (qs ! j) = Inr (Some r)"
      using request_Some[OF rec ok] by blast
    have "item_field r ''description'' = Some PNone"
      using request_description[OF r] by (simp only: dict_get_None[OF none])
    with produced_at[OF j r]
    show "\<exists>r. requests_at ?rs j = [r] \<and> item_field r ''description'' = Some PNone" by blast
  qed
  from run all absent show ?thesis by blast
qed

theorem description_key_always_present_witness:
  "list_all fields_ok mixed_questions \<and>
   (\<exists>rs. build_question_requests str_other_sample mixed_questions = Inr rs \<and>
     (\<forall>r \<in> set rs. \<exists>v. item_field r ''description'' = Some v) \<and>
     (\<exists>r. requests_at rs 0 = [r] \<and> item_field r ''description'' = Some PNone) \<and>
     (\<exists>r. requests_at rs 2 = [r] \<and> item_field r ''description'' = Some PNone))"
proof -
  obtain rs where run: "build_question_requests str_other_sample mixed_questions = Inr rs"
    and all: "\<forall>r \<in> set rs. \<exists>v. item_field r ''description'' = Some v"
    and absent: "\<forall>j < length mixed_questions.
        recognized (mixed_questions ! j) \<and> map_of (mixed_questions ! j) ''description'' = None \<longrightarrow>
        (\<exists>r. requests_at rs j = [r] \<and> item_field r ''description'' = Some PNone)"
    using description_key_always_present[OF mixed_fields_ok, of str_other_sample]
    by (elim exE conjE) (rule that)
  have n0: "map_of (mixed_questions ! 0) ''description'' = None"
    and n2: "map_of (mixed_questions ! 2) ''description'' = None"
    by (simp_all add: mixed_questions_def sample_defs)
  have l: "0 < length mixed_questions" "2 < length mixed_questions"
    by (simp_all add: mixed_questions_def)
  have "\<exists>r. requests_at rs 0 = [r] \<and> item_field r ''description'' = Some PNone"
    using absent l(1) mixed_recognized(1) n0 by blast
  moreover have "\<exists>r. requests_at rs 2 = [r] \<and> item_field r ''description'' = Some PNone"
    using absent l(2) mixed_recognized(3) n2 by blast
  ultimately show ?thesis using run all mixed_fields_ok by blast
qed

lemma scale_field_of_payload:
  assumes "question_field r ''scaleQuestion'' = Some (PDict d)"
  shows "scale_field r k = map_of d k"
proof -
  have step: "\<And>v ks k'. py_path v (ks @ [k']) =
      (case py_path v ks of None \<Rightarrow> None | Some w \<Rightarrow> py_path w [k'])"
  proof -
    fix v ks k'
    show "py_path v (ks @ [k']) = (case py_path v ks of None \<Rightarrow> None | Some w \<Rightarrow> py_path w [k'])"
      by (induction v ks rule: py_path.induct) (simp_all split: option.splits)
  qed
  have "scale_field r k = py_path r
      ([''createItem'', ''item'', ''questionItem'', ''question'', ''scaleQuestion''] @ [k])"
    by (simp add: scale_field_def)
  also have "\<dots> = py_path (PDict d) [k]"
    using assms unfolding step question_field_def by simp
  also have "\<dots> = map_of d k" by (simp split: option.splits)
  finally show ?thesis .
qed

lemma dict_get_no_key: "k \<notin> fst ` set d \<Longrightarrow> dict_get d k dflt = dflt"
  using map_of_eq_None_iff[of d k] by (simp add: dict_get_def)

lemma None_not_int_key:
  assumes "\<forall>k \<in> fst ` set labels. \<exists>n. k = str_int n"
  shows "dict_get labels ''None'' PNone = PNone"
proof (rule dict_get_no_key)
  show "''None'' \<notin> fst ` set labels"
  proof
    assume "''None'' \<in> fst ` set labels"
    with assms obtain n where "''None'' = str_int n" by blast
    then show False using str_int_not_None[of n] by simp
  qed
qed

text \<open>
  C10. A SCALE question without \<open>scale_min\<close> (or without \<open>scale_max\<close>) still gets
  a request; its \<open>low\<close> (or \<open>high\<close>) bound is \<open>None\<close> and the corresponding label is
  looked up under the key \<open>str(None)\<close>, that is \<open>"None"\<close>, so labels keyed by
  stringified integer bounds give the label \<open>None\<close>.
\<close>

theorem scale_missing_bound:
  assumes "list_all fields_ok qs" and "j < length qs"
    and "has_type (qs ! j) ''SCALE_QUESTION''"
  shows "\<exists>rs r labels. build_question_requests s qs = Inr rs \<and> requests_at rs j = [r] \<and>
     dict_get (qs ! j) ''scale_labels'' (PDict []) = PDict labels \<and>
     (map_of (qs ! j) ''scale_min'' = None \<longrightarrow>
        scale_field r ''low'' = Some PNone \<and>
        scale_field r ''lowLabel'' = Some (dict_get labels ''None'' PNone) \<and>
        ((\<forall>k \<in> fst ` set labels. \<exists>n. k = str_int n) \<longrightarrow>
           scale_field r ''lowLabel'' = Some PNone)) \<and>
     (map_of (qs ! j) ''scale_max'' = None \<longrightarrow>
        scale_field r ''high'' = Some PNone \<and>
        scale_field r ''highLabel'' = Some (dict_get labels ''None'' PNone) \<and>
        ((\<forall>k \<in> fst ` set labels. \<exists>n. k = str_int n) \<longrightarrow>
           scale_field r ''highLabel'' = Some PNone))"
proof -
  let ?q = "qs ! j"
  have ok: "fields_ok ?q" using assms(1,2) by (simp add: list_all_length)
  obtain labels where labels: "dict_get ?q ''scale_labels'' (PDict []) = PDict labels"
    using scale_labels_dict[OF ok assms(3)] by blast
  let ?d = "[(''low'', dict_get ?q ''scale_min'' PNone),
        (''high'', dict_get ?q ''scale_max'' PNone),
        (''lowLabel'', dict_get labels (py_str s (dict_get ?q ''scale_min'' PNone)) PNone),
        (''highLabel'', dict_get labels (py_str s (dict_get ?q ''scale_max'' PNone)) PNone)]"
  obtain rs r where run: "build_question_requests s qs = Inr rs" and at: "requests_at rs j = [r]"
    and field: "question_field r ''scaleQuestion'' = Some (PDict ?d)"
    using request_for_payload_fields[OF assms(1,2) payload_scale[OF assms(3) labels, of s]]
    by (elim exE conjE) (rule that)
  note sf = scale_field_of_payload[OF field]
  have lo: "scale_field r ''low'' = Some (dict_get ?q ''scale_min'' PNone)"
    and hi: "scale_field r ''high'' = Some (dict_get ?q ''scale_max'' PNone)"
    and ll: "scale_field r ''lowLabel''
        = Some (dict_get labels (py_str s (dict_get ?q ''scale_min'' PNone)) PNone)"
    and hl: "scale_field r ''highLabel''
        = Some (dict_get labels (py_str s (dict_get ?q ''scale_max'' PNone)) PNone)"
    unfolding sf by simp_all
  have low: "map_of ?q ''scale_min'' = None \<longrightarrow>
        scale_field r ''low'' = Some PNone \<and>
        scale_field r ''lowLabel'' = Some (dict_get labels ''None'' PNone) \<and>
        ((\<forall>k \<in> fst ` set labels. \<exists>n. k = str_int n) \<longrightarrow>
           scale_field r ''lowLabel'' = Some PNone)"
  proof
    assume "map_of ?q ''scale_min'' = None"
    then have m: "dict_get ?q ''scale_min'' PNone = PNone" by (rule dict_get_None)
    show "scale_field r ''low'' = Some PNone \<and>
        scale_field r ''lowLabel'' = Some (dict_get labels ''None'' PNone) \<and>
        ((\<forall>k \<in> fst ` set labels. \<exists>n. k = str_int n) \<longrightarrow>
           scale_field r ''lowLabel'' = Some PNone)"
      unfolding lo ll m using None_not_int_key[of labels] by simp
  qed
  have high: "map_of ?q ''scale_max'' = None \<longrightarrow>
        scale_field r ''high'' = Some PNone \<and>
        scale_field r ''highLabel'' = Some (dict_get labels ''None'' PNone) \<and>
        ((\<forall>k \<in> fst ` set labels. \<exists>n. k = str_int n) \<longrightarrow>
           scale_field r ''highLabel'' = Some PNone)"
  proof
    assume "map_of ?q ''scale_max'' = None"
    then have m: "dict_get ?q ''scale_max'' PNone = PNone" by (rule dict_get_None)
    show "scale_field r ''high'' = Some PNone \<and>
        scale_field r ''highLabel'' = Some (dict_get labels ''None'' PNone) \<and>
        ((\<forall>k \<in> fst ` set labels. \<exists>n. k = str_int n) \<longrightarrow>
           scale_field r ''highLabel'' = Some PNone)"
      unfolding hi hl m using None_not_int_key[of labels] by simp
  qed
  show ?thesis
    apply (rule exI[of _ rs], rule exI[of _ r], rule exI[of _ labels])
    apply (insert run at labels low high)
    by (intro conjI; assumption)
qed

lemma missing_bound_samples_ok: "list_all fields_ok [scale_without_min, scale_without_max]"
  by (simp add: scale_without_min_def scale_without_max_def fields_ok_def has_type_def
        dict_get_def)

lemma sample_labels_int_keys:
  "\<forall>k \<in> fst ` set [(''1'', PStr ''Low''), (''5'', PStr ''High'')]. \<exists>n. k = str_int n"
  using str_int_1 str_int_5 by (simp, metis)

theorem scale_missing_bound_witness:
  "list_all fields_ok [scale_without_min, scale_without_max] \<and>
   has_type scale_without_min ''SCALE_QUESTION'' \<and> has_type scale_without_max ''SCALE_QUESTION'' \<and>
   map_of scale_without_min ''scale_min'' = None \<and>
   map_of scale_without_max ''scale_max'' = None \<and>
   ''1'' = str_int 1 \<and> ''5'' = str_int 5 \<and>
   (\<exists>rs r. build_question_requests str_other_sample [scale_without_min, scale_without_max] = Inr rs \<and>
      requests_at rs 0 = [r] \<and>
      scale_field r ''low'' = Some PNone \<and> scale_field r ''lowLabel'' = Some PNone) \<and>
   (\<exists>rs r. build_question_requests str_other_sample [scale_without_min, scale_without_max] = Inr rs \<and>
      requests_at rs 1 = [r] \<and>
      scale_field r ''high'' = Some PNone \<and> scale_field r ''highLabel'' = Some PNone)"
proof -
  let ?qs = "[scale_without_min, scale_without_max]"
  let ?L = "[(''1'', PStr ''Low''), (''5'', PStr ''High'')]"
  have t0: "has_type (?qs ! 0) ''SCALE_QUESTION''"
    by (simp add: scale_without_min_def has_type_def dict_get_def)
  have t1: "has_type (?qs ! 1) ''SCALE_QUESTION''"
    by (simp add: scale_without_max_def has_type_def dict_get_def)
  have n0: "map_of (?qs ! 0) ''scale_min'' = None" by (simp add: scale_without_min_def)
  have n1: "map_of (?qs ! 1) ''scale_max'' = None" by (simp add: scale_without_max_def)
  have l0: "0 < length ?qs" and l1: "1 < length ?qs" by simp_all
  have a: "\<exists>rs r. build_question_requests str_other_sample ?qs = Inr rs \<and>
      requests_at rs 0 = [r] \<and>
      scale_field r ''low'' = Some PNone \<and> scale_field r ''lowLabel'' = Some PNone"
  proof -
    obtain rs r labels where run: "build_question_requests str_other_sample ?qs = Inr rs"
      and at: "requests_at rs 0 = [r]"
      and labels: "dict_get (?qs ! 0) ''scale_labels'' (PDict []) = PDict labels"
      and low: "map_of (?qs ! 0) ''scale_min'' = None \<longrightarrow>
        scale_field r ''low'' = Some PNone \<and>
        scale_field r ''lowLabel'' = Some (dict_get labels ''None'' PNone) \<and>
        ((\<forall>k \<in> fst ` set labels. \<exists>n. k = str_int n) \<longrightarrow>
           scale_field r ''lowLabel'' = Some PNone)"
      using scale_missing_bound[OF missing_bound_samples_ok l0 t0, of str_other_sample]
      by (elim exE conjE) (rule that)
    have "labels = ?L" using labels by (simp add: scale_without_min_def dict_get_def)
    with low n0 sample_labels_int_keys
    have "scale_field r ''low'' = Some PNone \<and> scale_field r ''lowLabel'' = Some PNone"
      by blast
    with run at show ?thesis by blast
  qed
  have b: "\<exists>rs r. build_question_requests str_other_sample ?qs = Inr rs \<and>
      requests_at rs 1 = [r] \<and>
      scale_field r ''high'' = Some PNone \<and> scale_field r ''highLabel'' = Some PNone"
  proof -
    obtain rs r labels where run: "build_question_requests str_other_sample ?qs = Inr rs"
      and at: "requests_at rs 1 = [r]"
      and labels: "dict_get (?qs ! 1) ''scale_labels'' (PDict []) = PDict labels"
      and high: "map_of (?qs ! 1) ''scale_max'' = None \<longrightarrow>
        scale_field r ''high'' = Some PNone \<and>
        scale_field r ''highLabel'' = Some (dict_get labels ''None'' PNone) \<and>
        ((\<forall>k \<in> fst ` set labels. \<exists>n. k = str_int n) \<longrightarrow>
           scale_field r ''highLabel'' = Some PNone)"
      using scale_missing_bound[OF missing_bound_samples_ok l1 t1, of str_other_sample]
      by (elim exE conjE) (rule that)
    have "labels = ?L" using labels by (simp add: scale_without_max_def dict_get_def)
    with high n1 sample_labels_int_keys
    have "scale_field r ''high'' = Some PNone \<and> scale_field r ''highLabel'' = Some PNone"
      by blast
    with run at show ?thesis by blast
  qed
  from a b missing_bound_samples_ok t0 t1 n0 n1 str_int_1 str_int_5 show ?thesis by simp
qed

end
